theory Spec2Isabelle
  imports Complex_Main
begin

section \<open>Numbers of the trading engine\<close>

text \<open>
  Every numeric field of the engine is a JavaScript \<^verbatim>\<open>number\<close>. The model keeps the
  three special values of that type, because the engine's guards (\<^verbatim>\<open>x || 0.1\<close>,
  \<^verbatim>\<open>a < b\<close> on a quotient) behave differently on them, and computes on finite values
  with exact real arithmetic: rounding error and overflow of the binary representation are
  outside the model, and the two zeros are identified (a zero divisor counts as \<open>+0\<close>).
  A rounding error can carry a computed number across a threshold. The properties of the
  sizer, of the position validation, of the value at risk, of the spike detector and of
  the arbitrage scan are therefore stated on the numbers as the engine's own operations
  (\<open>+\<close>, \<open>-\<close>, \<open>*\<close>, \<open>/\<close>, \<open><\<close>, \<open>\<le>\<close>, \<open>Math_min\<close>, \<open>Math_round\<close>, \<open>Math_sqrt\<close>)
  compute them from the inputs, in the order in which the engine applies them, and not on
  the real number that the same formula denotes.
\<close>

datatype jsnum = Fin real | PosInf | NegInf | NaN

instantiation jsnum :: "{plus, uminus, minus, times, inverse, ord}"
begin

fun plus_jsnum :: "jsnum \<Rightarrow> jsnum \<Rightarrow> jsnum" where
  "plus_jsnum NaN y = NaN"
| "plus_jsnum x NaN = NaN"
| "plus_jsnum (Fin a) (Fin b) = Fin (a + b)"
| "plus_jsnum PosInf NegInf = NaN"
| "plus_jsnum NegInf PosInf = NaN"
| "plus_jsnum PosInf y = PosInf"
| "plus_jsnum NegInf y = NegInf"
| "plus_jsnum (Fin a) y = y"

fun uminus_jsnum :: "jsnum \<Rightarrow> jsnum" where
  "uminus_jsnum (Fin a) = Fin (- a)"
| "uminus_jsnum PosInf = NegInf"
| "uminus_jsnum NegInf = PosInf"
| "uminus_jsnum NaN = NaN"

definition minus_jsnum :: "jsnum \<Rightarrow> jsnum \<Rightarrow> jsnum" where
  "minus_jsnum x y = x + (- y)"

fun times_jsnum :: "jsnum \<Rightarrow> jsnum \<Rightarrow> jsnum" where
  "times_jsnum NaN y = NaN"
| "times_jsnum x NaN = NaN"
| "times_jsnum (Fin a) (Fin b) = Fin (a * b)"
| "times_jsnum (Fin a) PosInf = (if a = 0 then NaN else if 0 < a then PosInf else NegInf)"
| "times_jsnum (Fin a) NegInf = (if a = 0 then NaN else if 0 < a then NegInf else PosInf)"
| "times_jsnum PosInf (Fin b) = (if b = 0 then NaN else if 0 < b then PosInf else NegInf)"
| "times_jsnum NegInf (Fin b) = (if b = 0 then NaN else if 0 < b then NegInf else PosInf)"
| "times_jsnum PosInf PosInf = PosInf"
| "times_jsnum NegInf NegInf = PosInf"
| "times_jsnum PosInf NegInf = NegInf"
| "times_jsnum NegInf PosInf = NegInf"

fun divide_jsnum :: "jsnum \<Rightarrow> jsnum \<Rightarrow> jsnum" where
  "divide_jsnum NaN y = NaN"
| "divide_jsnum x NaN = NaN"
| "divide_jsnum (Fin a) (Fin b) =
     (if b = 0 then (if a = 0 then NaN else if 0 < a then PosInf else NegInf)
      else Fin (a / b))"
| "divide_jsnum (Fin a) y = Fin 0"
| "divide_jsnum PosInf (Fin b) = (if 0 \<le> b then PosInf else NegInf)"
| "divide_jsnum NegInf (Fin b) = (if 0 \<le> b then NegInf else PosInf)"
| "divide_jsnum x y = NaN"

definition inverse_jsnum :: "jsnum \<Rightarrow> jsnum" where
  "inverse_jsnum x = Fin 1 div x"

fun less_jsnum :: "jsnum \<Rightarrow> jsnum \<Rightarrow> bool" where
  "less_jsnum NaN y = False"
| "less_jsnum x NaN = False"
| "less_jsnum (Fin a) (Fin b) = (a < b)"
| "less_jsnum x NegInf = False"
| "less_jsnum PosInf y = False"
| "less_jsnum x y = True"

definition less_eq_jsnum :: "jsnum \<Rightarrow> jsnum \<Rightarrow> bool" where
  "less_eq_jsnum x y = (x < y \<or> (x \<noteq> NaN \<and> x = y))"

instance ..

end

text \<open>\<^verbatim>\<open>Math.abs\<close>, \<^verbatim>\<open>Math.min\<close>, \<^verbatim>\<open>Math.max\<close>, \<^verbatim>\<open>Math.round\<close> (ties go up) and
  \<^verbatim>\<open>Math.sqrt\<close>.\<close>

fun Math_abs :: "jsnum \<Rightarrow> jsnum" where
  "Math_abs (Fin a) = Fin \<bar>a\<bar>"
| "Math_abs PosInf = PosInf"
| "Math_abs NegInf = PosInf"
| "Math_abs NaN = NaN"

definition Math_min :: "jsnum \<Rightarrow> jsnum \<Rightarrow> jsnum" where
  "Math_min x y = (if x = NaN \<or> y = NaN then NaN else if y < x then y else x)"

definition Math_max :: "jsnum \<Rightarrow> jsnum \<Rightarrow> jsnum" where
  "Math_max x y = (if x = NaN \<or> y = NaN then NaN else if x < y then y else x)"

fun Math_round :: "jsnum \<Rightarrow> jsnum" where
  "Math_round (Fin a) = Fin (of_int \<lfloor>a + 1 / 2\<rfloor>)"
| "Math_round x = x"

fun Math_sqrt :: "jsnum \<Rightarrow> jsnum" where
  "Math_sqrt (Fin a) = (if a < 0 then NaN else Fin (sqrt a))"
| "Math_sqrt PosInf = PosInf"
| "Math_sqrt x = NaN"

text \<open>\<^verbatim>\<open>x || d\<close> on numbers: zero and NaN are falsy.\<close>

definition or_default :: "jsnum \<Rightarrow> jsnum \<Rightarrow> jsnum" where
  "or_default x d = (if x = NaN \<or> x = Fin 0 then d else x)"

text \<open>\<^verbatim>\<open>xs.reduce((sum, p) => sum + f(p), 0)\<close>.\<close>

definition reduce_sum :: "('a \<Rightarrow> jsnum) \<Rightarrow> 'a list \<Rightarrow> jsnum" where
  "reduce_sum f xs = foldl (\<lambda>sum p. sum + f p) (Fin 0) xs"

text \<open>\<^verbatim>\<open>xs[i]\<close> on an array of numbers: a missing element is \<^verbatim>\<open>undefined\<close>, which every
  arithmetic operation and comparison of the engine treats as NaN.\<close>

definition at_index :: "jsnum list \<Rightarrow> nat \<Rightarrow> jsnum" where
  "at_index xs i = (if i < length xs then xs ! i else NaN)"

text \<open>The finite numbers, and the value of one.\<close>

fun is_fin :: "jsnum \<Rightarrow> bool" where
  "is_fin (Fin a) = True"
| "is_fin x = False"

fun fin_val :: "jsnum \<Rightarrow> real" where
  "fin_val (Fin a) = a"
| "fin_val x = 0"

section \<open>Kelly sizer\<close>

record KellyInput =
  ki_currentPrice :: jsnum
  ki_estimatedProbability :: jsnum
  ki_bankroll :: jsnum
  ki_kellyFraction :: jsnum
  ki_maxPositionPercent :: jsnum

datatype Recommendation = StrongBuy | Buy | Hold | Avoid

record KellyResult =
  kr_fraction :: jsnum
  kr_positionSize :: jsnum
  kr_edge :: jsnum
  kr_confidence :: jsnum
  kr_recommendation :: Recommendation

definition calculateKelly :: "KellyInput \<Rightarrow> KellyResult" where
  "calculateKelly input =
     (let edge = ki_estimatedProbability input - ki_currentPrice input in
      if edge \<le> Fin 0 then
        \<lparr>kr_fraction = Fin 0, kr_positionSize = Fin 0, kr_edge = edge,
         kr_confidence = Fin 0, kr_recommendation = Avoid\<rparr>
      else
        let rawKelly = edge / ki_currentPrice input;
            adjustedKelly = rawKelly * ki_kellyFraction input;
            cappedKelly = Math_min adjustedKelly (ki_maxPositionPercent input);
            positionSize = ki_bankroll input * cappedKelly;
            confidence = Math_min (edge / Fin 0.15) (Fin 1);
            recommendation =
              (if Fin 0.04 \<le> cappedKelly then StrongBuy
               else if Fin 0.02 \<le> cappedKelly then Buy
               else if Fin 0 < cappedKelly then Hold
               else Avoid)
        in \<lparr>kr_fraction = cappedKelly,
            kr_positionSize = Math_round (positionSize * Fin 100) / Fin 100,
            kr_edge = edge, kr_confidence = confidence,
            kr_recommendation = recommendation\<rparr>)"

section \<open>Risk manager\<close>

record RiskLimits =
  rl_maxTotalExposure :: jsnum
  rl_maxPositionSize :: jsnum
  rl_maxDailyLoss :: jsnum
  rl_maxCorrelation :: jsnum
  rl_stopLossDefault :: jsnum
  rl_takeProfitDefault :: jsnum

text \<open>\<^verbatim>\<open>Partial<RiskLimits>\<close>: every key may be absent.\<close>

record PartialRiskLimits =
  prl_maxTotalExposure :: "jsnum option"
  prl_maxPositionSize :: "jsnum option"
  prl_maxDailyLoss :: "jsnum option"
  prl_maxCorrelation :: "jsnum option"
  prl_stopLossDefault :: "jsnum option"
  prl_takeProfitDefault :: "jsnum option"

text \<open>The private fields of the class \<^verbatim>\<open>RiskManager\<close>.\<close>

record RiskManager =
  rm_limits :: RiskLimits
  rm_dailyPnL :: jsnum
  rm_peakEquity :: jsnum
  rm_currentEquity :: jsnum
  rm_tradingHalted :: bool

text \<open>The field initialisers of the class: the state of \<^verbatim>\<open>new RiskManager()\<close>.\<close>

definition new_RiskManager :: RiskManager where
  "new_RiskManager =
     \<lparr>rm_limits =
        \<lparr>rl_maxTotalExposure = Fin 0.25, rl_maxPositionSize = Fin 0.05,
         rl_maxDailyLoss = Fin 0.10, rl_maxCorrelation = Fin 0.7,
         rl_stopLossDefault = Fin 0.15, rl_takeProfitDefault = Fin 0.20\<rparr>,
      rm_dailyPnL = Fin 0, rm_peakEquity = Fin 0, rm_currentEquity = Fin 0,
      rm_tradingHalted = False\<rparr>"

text \<open>Of a trade the risk manager reads the realised profit or loss only.\<close>

record Trade =
  tr_profitLoss :: jsnum

record Position =
  pos_marketQuestion :: string
  pos_entryPrice :: jsnum
  pos_currentPrice :: jsnum
  pos_quantity :: jsnum
  pos_stopLoss :: "jsnum option"
  pos_takeProfit :: "jsnum option"

definition setLimits :: "RiskManager \<Rightarrow> PartialRiskLimits \<Rightarrow> RiskManager" where
  "setLimits s limits =
     (let old = rm_limits s;
          pick = (\<lambda>new cur. case new of None \<Rightarrow> cur | Some v \<Rightarrow> v)
      in s\<lparr>rm_limits :=
            \<lparr>rl_maxTotalExposure = pick (prl_maxTotalExposure limits) (rl_maxTotalExposure old),
             rl_maxPositionSize = pick (prl_maxPositionSize limits) (rl_maxPositionSize old),
             rl_maxDailyLoss = pick (prl_maxDailyLoss limits) (rl_maxDailyLoss old),
             rl_maxCorrelation = pick (prl_maxCorrelation limits) (rl_maxCorrelation old),
             rl_stopLossDefault = pick (prl_stopLossDefault limits) (rl_stopLossDefault old),
             rl_takeProfitDefault =
               pick (prl_takeProfitDefault limits) (rl_takeProfitDefault old)\<rparr>\<rparr>)"

definition updateEquity :: "RiskManager \<Rightarrow> jsnum \<Rightarrow> RiskManager" where
  "updateEquity s equity =
     (let s1 = s\<lparr>rm_currentEquity := equity\<rparr>
      in if rm_peakEquity s1 < equity then s1\<lparr>rm_peakEquity := equity\<rparr> else s1)"

definition recordTrade :: "RiskManager \<Rightarrow> Trade \<Rightarrow> RiskManager" where
  "recordTrade s trade =
     (let s1 = s\<lparr>rm_dailyPnL := rm_dailyPnL s + tr_profitLoss trade\<rparr>
      in if Fin 0 < rm_currentEquity s1
            \<and> rl_maxDailyLoss (rm_limits s1)
                \<le> Math_abs (rm_dailyPnL s1) / rm_currentEquity s1
         then s1\<lparr>rm_tradingHalted := True\<rparr>
         else s1)"

definition resetDailyPnL :: "RiskManager \<Rightarrow> RiskManager" where
  "resetDailyPnL s = s\<lparr>rm_dailyPnL := Fin 0, rm_tradingHalted := False\<rparr>"

definition isTradingAllowed :: "RiskManager \<Rightarrow> bool" where
  "isTradingAllowed s = (\<not> rm_tradingHalted s)"

definition getDailyPnL :: "RiskManager \<Rightarrow> jsnum" where
  "getDailyPnL s = rm_dailyPnL s"

text \<open>
  The calls that write the state of a risk manager. The other methods
  (\<^verbatim>\<open>getLimits\<close>, \<^verbatim>\<open>calculateMetrics\<close>, \<^verbatim>\<open>validatePosition\<close>,
  \<^verbatim>\<open>calculateStopLoss\<close>, ...) only read it.
\<close>

datatype RiskCall =
  SetLimits PartialRiskLimits
| UpdateEquity jsnum
| RecordTrade Trade
| ResetDailyPnL

fun risk_call :: "RiskManager \<Rightarrow> RiskCall \<Rightarrow> RiskManager" where
  "risk_call s (SetLimits l) = setLimits s l"
| "risk_call s (UpdateEquity e) = updateEquity s e"
| "risk_call s (RecordTrade t) = recordTrade s t"
| "risk_call s ResetDailyPnL = resetDailyPnL s"

definition risk_calls :: "RiskManager \<Rightarrow> RiskCall list \<Rightarrow> RiskManager" where
  "risk_calls s cs = foldl risk_call s cs"

fun is_reset :: "RiskCall \<Rightarrow> bool" where
  "is_reset ResetDailyPnL = True"
| "is_reset c = False"

text \<open>A call that does not raise the current equity above zero.\<close>

fun nonpositive_equity :: "RiskCall \<Rightarrow> bool" where
  "nonpositive_equity (UpdateEquity e) = (\<not> Fin 0 < e)"
| "nonpositive_equity c = True"

subsection \<open>Metrics\<close>




definition positionValue :: "Position \<Rightarrow> jsnum" where
  "positionValue p = pos_entryPrice p * pos_quantity p"






definition Math_pow2 :: "jsnum \<Rightarrow> jsnum" where
  "Math_pow2 r = r * r"



subsection \<open>Position validation\<close>

record Validation =
  v_allowed :: bool
  v_reason :: "string option"
  v_adjustedSize :: "jsnum option"

definition validatePosition ::
  "RiskManager \<Rightarrow> jsnum \<Rightarrow> jsnum \<Rightarrow> Position list \<Rightarrow> Validation" where
  "validatePosition s positionSize bankroll existingPositions =
     (if rm_tradingHalted s then
        \<lparr>v_allowed = False, v_reason = Some ''Trading halted due to daily loss limit'',
         v_adjustedSize = None\<rparr>
      else
        let currentExposure = reduce_sum positionValue existingPositions;
            newExposure = currentExposure + positionSize;
            exposurePercent = newExposure / bankroll
        in
          if rl_maxTotalExposure (rm_limits s) < exposurePercent then
            (let maxAllowed = rl_maxTotalExposure (rm_limits s) * bankroll - currentExposure
             in if maxAllowed \<le> Fin 0 then
                  \<lparr>v_allowed = False, v_reason = Some ''Maximum exposure limit reached'',
                   v_adjustedSize = None\<rparr>
                else
                  \<lparr>v_allowed = True,
                   v_reason = Some ''Position size reduced to stay within exposure limits'',
                   v_adjustedSize = Some maxAllowed\<rparr>)
          else
            let positionPercent = positionSize / bankroll
            in if rl_maxPositionSize (rm_limits s) < positionPercent then
                 \<lparr>v_allowed = True,
                  v_reason = Some ''Position size reduced to maximum allowed'',
                  v_adjustedSize = Some (bankroll * rl_maxPositionSize (rm_limits s))\<rparr>
               else \<lparr>v_allowed = True, v_reason = None, v_adjustedSize = None\<rparr>)"

section \<open>Market snapshots and the clock\<close>

text \<open>
  A market snapshot, with the fields the engine reads. \<^verbatim>\<open>Date.now()\<close> is a parameter of
  every operation that reads the clock: an integer number of milliseconds, read once per
  call. A timestamp rendered by \<^verbatim>\<open>toISOString\<close> and parsed back by
  \<^verbatim>\<open>new Date(...).getTime()\<close> is the same number of milliseconds, so it is stored as that
  number. An identifier built from a template such as \<^verbatim>\<open>spike-${marketId}-${Date.now()}\<close>
  is stored as the pair of its parts.
\<close>

record Market =
  mk_id :: string
  mk_question :: string
  mk_outcomes :: "string list"
  mk_outcomePrices :: "jsnum list"
  mk_volume :: jsnum

definition ms :: "int \<Rightarrow> jsnum" where
  "ms t = Fin (of_int t)"

text \<open>\<^verbatim>\<open>x || d\<close> on a number that may be absent.\<close>

fun or_default_opt :: "jsnum option \<Rightarrow> jsnum \<Rightarrow> jsnum" where
  "or_default_opt None d = d"
| "or_default_opt (Some x) d = or_default x d"

section \<open>Spike detector\<close>

record PricePoint =
  pp_marketId :: string
  pp_price :: jsnum
  pp_timestamp :: int
  pp_volume :: "jsnum option"

text \<open>Of the settings the detector reads the threshold and the cooldown.\<close>

record SpikeSettings =
  ss_spikeThreshold :: jsnum
  ss_cooldownMs :: jsnum

datatype Direction = Up | Down

datatype SuggestedAction = BuyYes | BuyNo | Wait

record SpikeEvent =
  se_id :: "string \<times> int"
  se_marketId :: string
  se_marketQuestion :: string
  se_priceChange :: jsnum
  se_priceChangePercent :: jsnum
  se_direction :: Direction
  se_previousPrice :: jsnum
  se_currentPrice :: jsnum
  se_volume :: jsnum
  se_detectedAt :: int
  se_confidence :: jsnum
  se_suggestedAction :: SuggestedAction

record SpikeDetector =
  sd_priceHistory :: "string \<rightharpoonup> PricePoint list"
  sd_cooldowns :: "string \<rightharpoonup> jsnum"
  sd_detectedSpikes :: "SpikeEvent list"
  sd_defaultWindowSize :: nat

definition new_SpikeDetector :: "nat \<Rightarrow> SpikeDetector" where
  "new_SpikeDetector defaultWindowSize =
     \<lparr>sd_priceHistory = Map.empty, sd_cooldowns = Map.empty, sd_detectedSpikes = [],
      sd_defaultWindowSize = defaultWindowSize\<rparr>"

text \<open>\<^verbatim>\<open>push\<close> followed by one \<^verbatim>\<open>shift\<close> when the array has grown past the bound.\<close>

definition push_bounded :: "nat \<Rightarrow> 'a list \<Rightarrow> 'a \<Rightarrow> 'a list" where
  "push_bounded bound xs x =
     (let ys = xs @ [x] in if bound < length ys then tl ys else ys)"

definition getPriceHistory :: "SpikeDetector \<Rightarrow> string \<Rightarrow> PricePoint list" where
  "getPriceHistory d marketId =
     (case sd_priceHistory d marketId of None \<Rightarrow> [] | Some history \<Rightarrow> history)"

definition recordPrice ::
  "SpikeDetector \<Rightarrow> string \<Rightarrow> jsnum \<Rightarrow> jsnum option \<Rightarrow> int \<Rightarrow> SpikeDetector" where
  "recordPrice d marketId price volume now =
     (let history = (case sd_priceHistory d marketId of None \<Rightarrow> [] | Some h \<Rightarrow> h);
          point = \<lparr>pp_marketId = marketId, pp_price = price, pp_timestamp = now,
                   pp_volume = volume\<rparr>;
          history = push_bounded (sd_defaultWindowSize d) history point
      in d\<lparr>sd_priceHistory := (sd_priceHistory d)(marketId \<mapsto> history)\<rparr>)"

definition detectSpike ::
  "SpikeDetector \<Rightarrow> string \<Rightarrow> SpikeSettings \<Rightarrow> int \<Rightarrow> SpikeEvent option \<times> SpikeDetector" where
  "detectSpike d marketId settings now =
     (case sd_priceHistory d marketId of
        None \<Rightarrow> (None, d)
      | Some history \<Rightarrow>
          if length history < 3 then (None, d)
          else
            let cooldownEnd = or_default_opt (sd_cooldowns d marketId) (Fin 0) in
            if ms now < cooldownEnd then (None, d)
            else
              let currentPrice = pp_price (last history);
                  recentPrices = drop (length history - min 5 (length history)) history;
                  avgRecentPrice = reduce_sum pp_price (butlast recentPrices)
                                     / Fin (real (length recentPrices - 1));
                  priceChange = currentPrice - avgRecentPrice;
                  priceChangePercent = Math_abs (priceChange / avgRecentPrice)
              in
                if priceChangePercent < ss_spikeThreshold settings then (None, d)
                else
                  let direction = (if Fin 0 < priceChange then Up else Down);
                      confidence =
                        Math_min (priceChangePercent / (ss_spikeThreshold settings * Fin 2))
                                 (Fin 1);
                      suggestedAction =
                        (if direction = Up \<and> Fin 0.6 < confidence then BuyNo
                         else if direction = Down \<and> Fin 0.6 < confidence then BuyYes
                         else Wait);
                      spike =
                        \<lparr>se_id = (marketId, now), se_marketId = marketId,
                         se_marketQuestion = [], se_priceChange = priceChange,
                         se_priceChangePercent = priceChangePercent,
                         se_direction = direction, se_previousPrice = avgRecentPrice,
                         se_currentPrice = currentPrice,
                         se_volume = or_default_opt (pp_volume (last history)) (Fin 0),
                         se_detectedAt = now, se_confidence = confidence,
                         se_suggestedAction = suggestedAction\<rparr>
                  in (Some spike,
                      d\<lparr>sd_detectedSpikes := push_bounded 100 (sd_detectedSpikes d) spike,
                        sd_cooldowns :=
                          (sd_cooldowns d)(marketId \<mapsto> ms now + ss_cooldownMs settings)\<rparr>))"

text \<open>
  \<^verbatim>\<open>analyzeMarkets\<close> writes the market's question into the event that \<open>detectSpike\<close>
  returned. That event is the object \<open>detectSpike\<close> has just appended to the log of
  detected spikes, so the last entry of the log changes with it.
\<close>

definition analyzeMarket ::
  "SpikeSettings \<Rightarrow> int \<Rightarrow> SpikeEvent list \<times> SpikeDetector \<Rightarrow> Market
     \<Rightarrow> SpikeEvent list \<times> SpikeDetector" where
  "analyzeMarket settings now acc market =
     (let spikes = fst acc;
          d = snd acc;
          yesPrice = at_index (mk_outcomePrices market) 0;
          d1 = recordPrice d (mk_id market) yesPrice (Some (mk_volume market)) now
      in case detectSpike d1 (mk_id market) settings now of
           (None, d2) \<Rightarrow> (spikes, d2)
         | (Some spike, d2) \<Rightarrow>
             let spike = spike\<lparr>se_marketQuestion := mk_question market\<rparr>
             in (spikes @ [spike],
                 d2\<lparr>sd_detectedSpikes := butlast (sd_detectedSpikes d2) @ [spike]\<rparr>))"

definition analyzeMarkets ::
  "SpikeDetector \<Rightarrow> Market list \<Rightarrow> SpikeSettings \<Rightarrow> int \<Rightarrow> SpikeEvent list \<times> SpikeDetector" where
  "analyzeMarkets d markets settings now = foldl (analyzeMarket settings now) ([], d) markets"

definition getRecentSpikes :: "SpikeDetector \<Rightarrow> nat \<Rightarrow> SpikeEvent list" where
  "getRecentSpikes d limit =
     (if limit = 0 then rev (sd_detectedSpikes d)
      else rev (drop (length (sd_detectedSpikes d) - limit) (sd_detectedSpikes d)))"

definition clearHistory :: "SpikeDetector \<Rightarrow> SpikeDetector" where
  "clearHistory d =
     d\<lparr>sd_priceHistory := Map.empty, sd_cooldowns := Map.empty, sd_detectedSpikes := []\<rparr>"

text \<open>
  The calls that feed and query a detector while it runs, each with the clock reading of
  the call. (\<open>clearHistory\<close> is the reset of the detector and not one of them.)
\<close>

datatype SpikeCall =
  RecordPrice string jsnum "jsnum option"
| DetectSpike string SpikeSettings
| AnalyzeMarkets "Market list" SpikeSettings

fun spike_call :: "SpikeDetector \<Rightarrow> int \<times> SpikeCall \<Rightarrow> SpikeDetector" where
  "spike_call d (now, RecordPrice marketId price volume) =
     recordPrice d marketId price volume now"
| "spike_call d (now, DetectSpike marketId settings) =
     snd (detectSpike d marketId settings now)"
| "spike_call d (now, AnalyzeMarkets markets settings) =
     snd (analyzeMarkets d markets settings now)"

definition spike_calls :: "SpikeDetector \<Rightarrow> (int \<times> SpikeCall) list \<Rightarrow> SpikeDetector" where
  "spike_calls d cs = foldl spike_call d cs"

text \<open>The detector that the module exports: \<^verbatim>\<open>new SpikeDetector()\<close>, with the default
  window of 30 points.\<close>

definition spikeDetector :: SpikeDetector where
  "spikeDetector = new_SpikeDetector 30"

text \<open>
  The price points that a sequence of calls records for a market, in the order of the
  calls, and the most recent \<open>w\<close> elements of a list.
\<close>

definition price_point :: "int \<Rightarrow> string \<Rightarrow> jsnum \<Rightarrow> jsnum option \<Rightarrow> PricePoint" where
  "price_point now marketId price volume =
     \<lparr>pp_marketId = marketId, pp_price = price, pp_timestamp = now, pp_volume = volume\<rparr>"

fun points_of :: "int \<times> SpikeCall \<Rightarrow> PricePoint list" where
  "points_of (now, RecordPrice marketId price volume) = [price_point now marketId price volume]"
| "points_of (now, DetectSpike marketId settings) = []"
| "points_of (now, AnalyzeMarkets markets settings) =
     map (\<lambda>market. price_point now (mk_id market) (at_index (mk_outcomePrices market) 0)
                       (Some (mk_volume market))) markets"

definition recorded :: "string \<Rightarrow> (int \<times> SpikeCall) list \<Rightarrow> PricePoint list" where
  "recorded marketId cs = filter (\<lambda>p. pp_marketId p = marketId) (concat (map points_of cs))"

definition most_recent :: "nat \<Rightarrow> 'a list \<Rightarrow> 'a list" where
  "most_recent w xs = drop (length xs - w) xs"

text \<open>
  The points that \<open>detectSpike\<close> looks at: the last \<open>min 5 n\<close> of a history of \<open>n\<close> points.
  The reference price of a history is the average of these points without the newest, as
  \<open>detectSpike\<close> computes it: the sum, from zero and in the order of the points, divided by
  their number.
\<close>

definition recent_points :: "PricePoint list \<Rightarrow> PricePoint list" where
  "recent_points history = drop (length history - min 5 (length history)) history"

definition avgRecentPrice :: "PricePoint list \<Rightarrow> jsnum" where
  "avgRecentPrice history =
     reduce_sum pp_price (butlast (recent_points history))
       / Fin (real (length (recent_points history) - 1))"

text \<open>
  The market feed (\<^verbatim>\<open>fetchPolymarketMarkets\<close>) builds the snapshots that reach the engine.
  It replaces a price that is missing, zero or NaN by 0.5:
  \<^verbatim>\<open>parseFloat(p) || 0.5\<close> on every element, then \<^verbatim>\<open>prices[0] || 0.5\<close>.
\<close>

definition feedPrice :: "jsnum option \<Rightarrow> jsnum" where
  "feedPrice p = or_default (or_default_opt p (Fin 0.5)) (Fin 0.5)"

section \<open>Arbitrage scanner\<close>

datatype OpportunityType = Binary | MultiMarket | CrossPlatform

datatype OpportunityStatus = Active | Expired | Executed

record Leg =
  leg_id :: string
  leg_question :: string
  leg_price :: jsnum
  leg_platform :: string

record ArbitrageOpportunity =
  ao_id :: "string \<times> int"
  ao_type :: OpportunityType
  ao_market1 :: Leg
  ao_market2 :: "Leg option"
  ao_totalCost :: jsnum
  ao_guaranteedPayout :: jsnum
  ao_profit :: jsnum
  ao_profitPercent :: jsnum
  ao_detectedAt :: int
  ao_status :: OpportunityStatus

definition TRANSACTION_FEE :: jsnum where
  "TRANSACTION_FEE = Fin 0.02"

text \<open>The body of the loop over the markets: the opportunity pushed for one market, if any.\<close>

definition binaryOpportunity :: "int \<Rightarrow> Market \<Rightarrow> ArbitrageOpportunity list" where
  "binaryOpportunity now market =
     (if length (mk_outcomes market) \<noteq> 2 then []
      else
        let yesPrice = at_index (mk_outcomePrices market) 0;
            noPrice = at_index (mk_outcomePrices market) 1;
            totalCost = yesPrice + noPrice;
            netCost = totalCost + TRANSACTION_FEE
        in if netCost < Fin 1 then
             let profit = Fin 1 - netCost;
                 profitPercent = (profit / netCost) * Fin 100
             in [\<lparr>ao_id = (mk_id market, now), ao_type = Binary,
                  ao_market1 = \<lparr>leg_id = mk_id market, leg_question = mk_question market,
                                leg_price = yesPrice, leg_platform = ''polymarket''\<rparr>,
                  ao_market2 = Some \<lparr>leg_id = mk_id market,
                                     leg_question = mk_question market @ '' (NO)'',
                                     leg_price = noPrice, leg_platform = ''polymarket''\<rparr>,
                  ao_totalCost = netCost, ao_guaranteedPayout = Fin 1, ao_profit = profit,
                  ao_profitPercent = profitPercent, ao_detectedAt = now,
                  ao_status = Active\<rparr>]
           else [])"

text \<open>The scanner's state is its registry \<^verbatim>\<open>opportunities\<close>; the scan returns the new
  opportunities and the registry it leaves.\<close>

definition scanBinaryArbitrage ::
  "ArbitrageOpportunity list \<Rightarrow> Market list \<Rightarrow> int
     \<Rightarrow> ArbitrageOpportunity list \<times> ArbitrageOpportunity list" where
  "scanBinaryArbitrage opportunities markets now =
     (let newOpportunities = concat (map (binaryOpportunity now) markets)
      in (newOpportunities,
          take 50 (newOpportunities
                   @ filter (\<lambda>opp. now - ao_detectedAt opp < 300000) opportunities)))"

definition getActiveOpportunities :: "ArbitrageOpportunity list \<Rightarrow> ArbitrageOpportunity list" where
  "getActiveOpportunities opportunities = filter (\<lambda>opp. ao_status opp = Active) opportunities"

text \<open>
  The net cost of buying both sides of a market, the markets that a scan flags, and a
  registry whose entries are ordered from the newest detection to the oldest.
\<close>

definition netCost :: "Market \<Rightarrow> jsnum" where
  "netCost market =
     at_index (mk_outcomePrices market) 0 + at_index (mk_outcomePrices market) 1
       + TRANSACTION_FEE"

definition flagged :: "Market \<Rightarrow> bool" where
  "flagged market = (length (mk_outcomes market) = 2 \<and> netCost market < Fin 1)"

definition newest_first :: "ArbitrageOpportunity list \<Rightarrow> bool" where
  "newest_first opportunities =
     sorted_wrt (\<lambda>a b. ao_detectedAt b \<le> ao_detectedAt a) opportunities"

section \<open>Backtesting engine\<close>

datatype Strategy = StrategyArbitrage | StrategySpike | StrategyStatistical | StrategyKelly

text \<open>The keys of \<^verbatim>\<open>config.settings\<close> that the simulators read; each may be absent.\<close>

record BacktestSettings =
  bs_positionPercent :: "jsnum option"
  bs_spikeThreshold :: "jsnum option"
  bs_minProfit :: "jsnum option"
  bs_kellyFraction :: "jsnum option"

text \<open>The configuration, without the two date strings, which the engine does not read.\<close>

record BacktestConfig =
  bc_strategy :: Strategy
  bc_initialCapital :: jsnum
  bc_settings :: BacktestSettings

datatype Side = YES | NO

record BacktestTrade =
  bt_entryDate :: int
  bt_exitDate :: int
  bt_marketId :: string
  bt_side :: Side
  bt_entryPrice :: jsnum
  bt_exitPrice :: jsnum
  bt_quantity :: jsnum
  bt_profitLoss :: jsnum
  bt_profitLossPercent :: jsnum

definition spikeTrade :: "Market list \<Rightarrow> jsnum \<Rightarrow> jsnum \<Rightarrow> int \<Rightarrow> Market \<Rightarrow> BacktestTrade list" where
  "spikeTrade prevMarkets positionSize spikeThreshold now currMarket =
     (case find (\<lambda>m. mk_id m = mk_id currMarket) prevMarkets of
        None \<Rightarrow> []
      | Some prevMarket \<Rightarrow>
          let curr0 = at_index (mk_outcomePrices currMarket) 0;
              prev0 = at_index (mk_outcomePrices prevMarket) 0;
              priceChange = Math_abs (curr0 - prev0);
              priceChangePercent = priceChange / prev0
          in if spikeThreshold < priceChangePercent then
               let entryPrice = curr0;
                   reversionAmount = priceChange * Fin 0.5;
                   exitPrice = (if prev0 < curr0 then entryPrice - reversionAmount
                                else entryPrice + reversionAmount);
                   quantity = positionSize / entryPrice;
                   profitLoss = quantity * (exitPrice - entryPrice)
                                  * (if prev0 < curr0 then Fin (- 1) else Fin 1)
               in [\<lparr>bt_entryDate = now, bt_exitDate = now, bt_marketId = mk_id currMarket,
                    bt_side = (if prev0 < curr0 then NO else YES),
                    bt_entryPrice = entryPrice, bt_exitPrice = exitPrice,
                    bt_quantity = quantity, bt_profitLoss = profitLoss,
                    bt_profitLossPercent = (profitLoss / positionSize) * Fin 100\<rparr>]
             else [])"

definition simulateSpikeTrades ::
  "Market list \<Rightarrow> Market list \<Rightarrow> jsnum \<Rightarrow> BacktestSettings \<Rightarrow> int \<Rightarrow> BacktestTrade list" where
  "simulateSpikeTrades prevMarkets currMarkets positionSize settings now =
     (let spikeThreshold = or_default_opt (bs_spikeThreshold settings) (Fin 0.02)
      in concat (map (spikeTrade prevMarkets positionSize spikeThreshold now) currMarkets))"

definition arbitrageTrade :: "jsnum \<Rightarrow> jsnum \<Rightarrow> int \<Rightarrow> Market \<Rightarrow> BacktestTrade list" where
  "arbitrageTrade positionSize minProfit now market =
     (let totalCost = at_index (mk_outcomePrices market) 0
                        + at_index (mk_outcomePrices market) 1
      in if totalCost < Fin 1 - minProfit then
           let profit = (Fin 1 - totalCost) * positionSize
           in [\<lparr>bt_entryDate = now, bt_exitDate = now, bt_marketId = mk_id market,
                bt_side = YES, bt_entryPrice = totalCost, bt_exitPrice = Fin 1,
                bt_quantity = positionSize / totalCost, bt_profitLoss = profit,
                bt_profitLossPercent = ((Fin 1 - totalCost) / totalCost) * Fin 100\<rparr>]
         else [])"

definition simulateArbitrageTrades ::
  "Market list \<Rightarrow> jsnum \<Rightarrow> BacktestSettings \<Rightarrow> int \<Rightarrow> BacktestTrade list" where
  "simulateArbitrageTrades markets positionSize settings now =
     (let minProfit = or_default_opt (bs_minProfit settings) (Fin 0.02)
      in concat (map (arbitrageTrade positionSize minProfit now) markets))"

text \<open>
  The Kelly simulator draws from \<^verbatim>\<open>Math.random()\<close> once per market for the probability
  estimate and, when it trades, once more for the outcome. The draws are a parameter: the
  pair of numbers in \<open>[0, 1)\<close> that the market at a given position of the day's list
  receives.
\<close>

definition kellyTrade :: "jsnum \<Rightarrow> jsnum \<Rightarrow> int \<Rightarrow> Market \<times> real \<times> real \<Rightarrow> BacktestTrade list" where
  "kellyTrade equity kellyFraction now cd =
     (let currMarket = fst cd;
          estimatedProb = Fin 0.5 + (Fin (fst (snd cd)) - Fin 0.5) * Fin 0.3;
          currentPrice = at_index (mk_outcomePrices currMarket) 0;
          edge = estimatedProb - currentPrice
      in if Fin 0.05 < edge then
           let fraction = Math_min ((edge / currentPrice) * kellyFraction) (Fin 0.05);
               positionSize = equity * fraction;
               outcomeWin = (Fin (snd (snd cd)) < estimatedProb);
               profitLoss = (if outcomeWin then positionSize * (Fin 1 / currentPrice - Fin 1)
                             else - positionSize)
           in [\<lparr>bt_entryDate = now, bt_exitDate = now, bt_marketId = mk_id currMarket,
                bt_side = YES, bt_entryPrice = currentPrice,
                bt_exitPrice = (if outcomeWin then Fin 1 else Fin 0),
                bt_quantity = positionSize / currentPrice, bt_profitLoss = profitLoss,
                bt_profitLossPercent = (profitLoss / positionSize) * Fin 100\<rparr>]
         else [])"

definition simulateKellyTrades ::
  "Market list \<Rightarrow> Market list \<Rightarrow> jsnum \<Rightarrow> BacktestSettings \<Rightarrow> int \<Rightarrow> (nat \<Rightarrow> real \<times> real)
     \<Rightarrow> BacktestTrade list" where
  "simulateKellyTrades prevMarkets currMarkets equity settings now draws =
     (let kellyFraction = or_default_opt (bs_kellyFraction settings) (Fin 0.5)
      in concat (map (kellyTrade equity kellyFraction now)
                     (zip currMarkets (map draws [0..<length currMarkets]))))"

definition simulateTrades ::
  "BacktestConfig \<Rightarrow> Market list \<Rightarrow> Market list \<Rightarrow> jsnum \<Rightarrow> int \<Rightarrow> (nat \<Rightarrow> real \<times> real)
     \<Rightarrow> BacktestTrade list" where
  "simulateTrades config prevMarkets currMarkets equity now draws =
     (let positionSize =
            equity * or_default_opt (bs_positionPercent (bc_settings config)) (Fin 0.02)
      in case bc_strategy config of
           StrategySpike \<Rightarrow>
             simulateSpikeTrades prevMarkets currMarkets positionSize (bc_settings config) now
         | StrategyArbitrage \<Rightarrow>
             simulateArbitrageTrades currMarkets positionSize (bc_settings config) now
         | StrategyKelly \<Rightarrow>
             simulateKellyTrades prevMarkets currMarkets equity (bc_settings config) now draws
         | StrategyStatistical \<Rightarrow> [])"

text \<open>The variables of the loop over the days of \<open>runBacktest\<close>.\<close>

record BacktestLoop =
  bl_trades :: "BacktestTrade list"
  bl_equity :: jsnum
  bl_equityCurve :: "(int \<times> jsnum) list"
  bl_peakEquity :: jsnum
  bl_maxDrawdown :: jsnum

definition backtest_start :: "BacktestConfig \<Rightarrow> BacktestLoop" where
  "backtest_start config =
     \<lparr>bl_trades = [], bl_equity = bc_initialCapital config, bl_equityCurve = [],
      bl_peakEquity = bc_initialCapital config, bl_maxDrawdown = Fin 0\<rparr>"

text \<open>
  One iteration, for the day \<open>i\<close>. The date of the equity-curve point is the calendar day
  of \<^verbatim>\<open>Date.now() - (historicalData.length - i) * 86400000\<close>, kept as the number of that
  day.
\<close>

definition backtest_day ::
  "BacktestConfig \<Rightarrow> Market list list \<Rightarrow> int \<Rightarrow> (nat \<Rightarrow> nat \<Rightarrow> real \<times> real)
     \<Rightarrow> BacktestLoop \<Rightarrow> nat \<Rightarrow> BacktestLoop" where
  "backtest_day config historicalData now draws st i =
     (let prevMarkets = historicalData ! (i - 1);
          currMarkets = historicalData ! i;
          date = (now - (int (length historicalData) - int i) * 86400000) div 86400000;
          dayTrades = simulateTrades config prevMarkets currMarkets (bl_equity st) now (draws i);
          equity = foldl (\<lambda>equity trade. equity + bt_profitLoss trade) (bl_equity st) dayTrades;
          peakEquity = (if bl_peakEquity st < equity then equity else bl_peakEquity st);
          currentDrawdown = (peakEquity - equity) / peakEquity;
          maxDrawdown = (if bl_maxDrawdown st < currentDrawdown then currentDrawdown
                         else bl_maxDrawdown st)
      in \<lparr>bl_trades = bl_trades st @ dayTrades, bl_equity = equity,
          bl_equityCurve = bl_equityCurve st @ [(date, equity)],
          bl_peakEquity = peakEquity, bl_maxDrawdown = maxDrawdown\<rparr>)"

text \<open>The loop \<^verbatim>\<open>for (let i = 1; i < n; i++)\<close>, stopped before the day \<open>n\<close>.\<close>

definition backtest_loop ::
  "BacktestConfig \<Rightarrow> Market list list \<Rightarrow> int \<Rightarrow> (nat \<Rightarrow> nat \<Rightarrow> real \<times> real) \<Rightarrow> nat
     \<Rightarrow> BacktestLoop" where
  "backtest_loop config historicalData now draws n =
     foldl (backtest_day config historicalData now draws) (backtest_start config) [1..<n]"

record BacktestResult =
  br_id :: int
  br_config :: BacktestConfig
  br_totalReturn :: jsnum
  br_totalReturnPercent :: jsnum
  br_maxDrawdown :: jsnum
  br_sharpeRatio :: jsnum
  br_winRate :: jsnum
  br_totalTrades :: nat
  br_profitFactor :: jsnum
  br_equityCurve :: "(int \<times> jsnum) list"
  br_trades :: "BacktestTrade list"
  br_runAt :: int

text \<open>The engine's state is its list \<^verbatim>\<open>results\<close>; a run returns its result and the list
  it leaves.\<close>

definition runBacktest ::
  "BacktestResult list \<Rightarrow> BacktestConfig \<Rightarrow> Market list list \<Rightarrow> int
     \<Rightarrow> (nat \<Rightarrow> nat \<Rightarrow> real \<times> real) \<Rightarrow> BacktestResult \<times> BacktestResult list" where
  "runBacktest results config historicalData now draws =
     (let st = backtest_loop config historicalData now draws (length historicalData);
          trades = bl_trades st;
          equity = bl_equity st;
          wins = filter (\<lambda>t. Fin 0 < bt_profitLoss t) trades;
          losses = filter (\<lambda>t. bt_profitLoss t \<le> Fin 0) trades;
          totalProfit = reduce_sum bt_profitLoss wins;
          totalLoss = Math_abs (reduce_sum bt_profitLoss losses);
          returns = map bt_profitLossPercent trades;
          avgReturn = (if 0 < length returns
                       then reduce_sum (\<lambda>b. b) returns / Fin (real (length returns))
                       else Fin 0);
          stdReturn = (if 1 < length returns
                       then Math_sqrt (reduce_sum (\<lambda>r. Math_pow2 (r - avgReturn)) returns
                                         / Fin (real (length returns - 1)))
                       else Fin 0);
          sharpeRatio = (if Fin 0 < stdReturn
                         then (avgReturn / stdReturn) * Math_sqrt (Fin 252)
                         else Fin 0);
          result =
            \<lparr>br_id = now, br_config = config,
             br_totalReturn = equity - bc_initialCapital config,
             br_totalReturnPercent =
               ((equity - bc_initialCapital config) / bc_initialCapital config) * Fin 100,
             br_maxDrawdown = bl_maxDrawdown st * Fin 100,
             br_sharpeRatio = sharpeRatio,
             br_winRate = (if 0 < length trades
                           then (Fin (real (length wins)) / Fin (real (length trades))) * Fin 100
                           else Fin 0),
             br_totalTrades = length trades,
             br_profitFactor = (if Fin 0 < totalLoss then totalProfit / totalLoss
                                else if Fin 0 < totalProfit then PosInf else Fin 0),
             br_equityCurve = bl_equityCurve st, br_trades = trades, br_runAt = now\<rparr>
      in (result, push_bounded 20 results result))"

text \<open>
  The largest drawdown of a sequence of daily equities, as the specification words it: at
  each day the peak is the largest equity so far (starting from the initial capital) and the
  drawdown is \<open>(peak - equity) / peak\<close>.
\<close>

fun drawdowns :: "real \<Rightarrow> real list \<Rightarrow> real list" where
  "drawdowns peak [] = []"
| "drawdowns peak (equity # rest) =
     (max peak equity - equity) / max peak equity # drawdowns (max peak equity) rest"

text \<open>The finite daily equities of an equity curve.\<close>

definition curve_equities :: "(int \<times> jsnum) list \<Rightarrow> real list" where
  "curve_equities curve = map (\<lambda>p. fin_val (snd p)) curve"

text \<open>A source of random draws that gives every market of every day the same pair.\<close>

definition fixed_draws :: "real \<times> real \<Rightarrow> nat \<Rightarrow> nat \<Rightarrow> real \<times> real" where
  "fixed_draws d i j = d"

section \<open>Quantities of the specification\<close>







section \<open>Arithmetic on finite numbers\<close>

lemma minus_Fin [simp]: "Fin a - Fin b = Fin (a - b)"
  by (simp add: minus_jsnum_def)

lemma le_Fin [simp]: "(Fin a \<le> Fin b) = (a \<le> b)"
  by (auto simp: less_eq_jsnum_def)

lemma div_Fin [simp]: "b \<noteq> 0 \<Longrightarrow> Fin a / Fin b = Fin (a / b)"
  by simp

lemma Math_min_Fin [simp]: "Math_min (Fin a) (Fin b) = Fin (min a b)"
  by (simp add: Math_min_def min_def)

lemma Math_max_Fin [simp]: "Math_max (Fin a) (Fin b) = Fin (max a b)"
  by (simp add: Math_max_def max_def)

lemma is_fin_iff: "is_fin x \<longleftrightarrow> (\<exists>a. x = Fin a)"
  by (cases x) simp_all

lemma pos_not_le: "Fin 0 < x \<Longrightarrow> \<not> x \<le> Fin 0"
  by (cases x) (simp_all add: less_eq_jsnum_def)

section \<open>Kelly sizer: properties\<close>

lemma kelly_nonpositive:
  "ki_estimatedProbability i - ki_currentPrice i \<le> Fin 0 \<Longrightarrow>
   calculateKelly i =
     \<lparr>kr_fraction = Fin 0, kr_positionSize = Fin 0,
      kr_edge = ki_estimatedProbability i - ki_currentPrice i,
      kr_confidence = Fin 0, kr_recommendation = Avoid\<rparr>"
  by (simp add: calculateKelly_def Let_def)

lemma kelly_positive_edge:
  assumes "Fin 0 < ki_estimatedProbability j - ki_currentPrice j"
  shows "calculateKelly j =
     \<lparr>kr_fraction =
        Math_min ((ki_estimatedProbability j - ki_currentPrice j) / ki_currentPrice j
                    * ki_kellyFraction j) (ki_maxPositionPercent j),
      kr_positionSize =
        Math_round
          (ki_bankroll j
             * Math_min ((ki_estimatedProbability j - ki_currentPrice j) / ki_currentPrice j
                           * ki_kellyFraction j) (ki_maxPositionPercent j)
             * Fin 100) / Fin 100,
      kr_edge = ki_estimatedProbability j - ki_currentPrice j,
      kr_confidence =
        Math_min ((ki_estimatedProbability j - ki_currentPrice j) / Fin 0.15) (Fin 1),
      kr_recommendation =
        (if Fin 0.04 \<le> Math_min ((ki_estimatedProbability j - ki_currentPrice j)
                                     / ki_currentPrice j * ki_kellyFraction j)
                                  (ki_maxPositionPercent j) then StrongBuy
         else if Fin 0.02 \<le> Math_min ((ki_estimatedProbability j - ki_currentPrice j)
                                          / ki_currentPrice j * ki_kellyFraction j)
                                       (ki_maxPositionPercent j) then Buy
         else if Fin 0 < Math_min ((ki_estimatedProbability j - ki_currentPrice j)
                                      / ki_currentPrice j * ki_kellyFraction j)
                                   (ki_maxPositionPercent j) then Hold
         else Avoid)\<rparr>"
  unfolding calculateKelly_def Let_def
  using pos_not_le [OF assms] by (simp cong del: if_weak_cong split del: if_split)

lemma Math_round_nearest:
  "\<exists>n :: int. Math_round (Fin a) = Fin (of_int n) \<and> of_int n - a \<le> 1 / 2 \<and> a - of_int n < 1 / 2"
proof -
  define n where "n = \<lfloor>a + 1 / 2\<rfloor>"
  have "real_of_int n \<le> a + 1 / 2" and "a + 1 / 2 < real_of_int n + 1"
    unfolding n_def by linarith+
  then have "real_of_int n - a \<le> 1 / 2" and "a - real_of_int n < 1 / 2"
    by linarith+
  moreover have "Math_round (Fin a) = Fin (real_of_int n)"
    by (simp add: n_def)
  ultimately show ?thesis
    by blast
qed

text \<open>
  C1. \<open>calculateKelly\<close>: an input whose edge (estimated probability minus current price) is
  not positive gets fraction 0, position size 0, confidence 0 and the recommendation
  "avoid". An input with a positive edge and a current price strictly between 0 and 1
  gets, on the numbers as the sizer computes them, the fraction
  \<open>Math_min ((edge / currentPrice) * kellyFraction) maxPositionPercent\<close>, the position size
  \<open>Math_round (bankroll * fraction * 100) / 100\<close>, the confidence
  \<open>Math_min (edge / 0.15) 1\<close>, and the recommendation strong_buy when the computed fraction
  is at least 0.04, buy when it is at least 0.02, hold when it is positive. \<open>Math_round\<close>
  of a finite number is an integer at most one half away from it, a half rounding up, so
  the position size is a whole number of cents divided by 100. The input with price 0.40,
  probability 0.60, bankroll 10000, Kelly fraction 0.5 and cap 0.05 is sized at 500.00 and
  recommended as strong_buy.
\<close>

theorem calculateKelly_spec:
  "(ki_estimatedProbability i - ki_currentPrice i \<le> Fin 0 \<longrightarrow>
      calculateKelly i =
        \<lparr>kr_fraction = Fin 0, kr_positionSize = Fin 0,
         kr_edge = ki_estimatedProbability i - ki_currentPrice i,
         kr_confidence = Fin 0, kr_recommendation = Avoid\<rparr>)
   \<and> (Fin 0 < ki_estimatedProbability j - ki_currentPrice j
        \<and> Fin 0 < ki_currentPrice j \<and> ki_currentPrice j < Fin 1 \<longrightarrow>
        (let edge = ki_estimatedProbability j - ki_currentPrice j;
             fraction = Math_min ((edge / ki_currentPrice j) * ki_kellyFraction j)
                                 (ki_maxPositionPercent j);
             r = calculateKelly j
         in
           kr_fraction r = fraction
           \<and> kr_positionSize r = Math_round (ki_bankroll j * fraction * Fin 100) / Fin 100
           \<and> kr_edge r = edge
           \<and> kr_confidence r = Math_min (edge / Fin 0.15) (Fin 1)
           \<and> kr_recommendation r =
               (if Fin 0.04 \<le> fraction then StrongBuy
                else if Fin 0.02 \<le> fraction then Buy
                else if Fin 0 < fraction then Hold
                else Avoid)))
   \<and> (\<exists>n :: int. Math_round (Fin a) = Fin (of_int n)
                   \<and> of_int n - a \<le> 1 / 2 \<and> a - of_int n < 1 / 2)
   \<and> (let r = calculateKelly
                 \<lparr>ki_currentPrice = Fin 0.40, ki_estimatedProbability = Fin 0.60,
                  ki_bankroll = Fin 10000, ki_kellyFraction = Fin 0.5,
                  ki_maxPositionPercent = Fin 0.05\<rparr>
       in kr_positionSize r = Fin 500 \<and> kr_recommendation r = StrongBuy)"
proof (intro conjI impI)
  assume "ki_estimatedProbability i - ki_currentPrice i \<le> Fin 0"
  then show "calculateKelly i =
        \<lparr>kr_fraction = Fin 0, kr_positionSize = Fin 0,
         kr_edge = ki_estimatedProbability i - ki_currentPrice i,
         kr_confidence = Fin 0, kr_recommendation = Avoid\<rparr>"
    by (rule kelly_nonpositive)
next
  assume "Fin 0 < ki_estimatedProbability j - ki_currentPrice j
        \<and> Fin 0 < ki_currentPrice j \<and> ki_currentPrice j < Fin 1"
  then have "Fin 0 < ki_estimatedProbability j - ki_currentPrice j"
    by simp
  from kelly_positive_edge [OF this]
  show "let edge = ki_estimatedProbability j - ki_currentPrice j;
             fraction = Math_min ((edge / ki_currentPrice j) * ki_kellyFraction j)
                                 (ki_maxPositionPercent j);
             r = calculateKelly j
         in
           kr_fraction r = fraction
           \<and> kr_positionSize r = Math_round (ki_bankroll j * fraction * Fin 100) / Fin 100
           \<and> kr_edge r = edge
           \<and> kr_confidence r = Math_min (edge / Fin 0.15) (Fin 1)
           \<and> kr_recommendation r =
               (if Fin 0.04 \<le> fraction then StrongBuy
                else if Fin 0.02 \<le> fraction then Buy
                else if Fin 0 < fraction then Hold
                else Avoid)"
    by (simp only: Let_def KellyResult.simps simp_thms)
next
  show "\<exists>n :: int. Math_round (Fin a) = Fin (of_int n)
                   \<and> of_int n - a \<le> 1 / 2 \<and> a - of_int n < 1 / 2"
    by (rule Math_round_nearest)
next
  show "let r = calculateKelly
                 \<lparr>ki_currentPrice = Fin 0.40, ki_estimatedProbability = Fin 0.60,
                  ki_bankroll = Fin 10000, ki_kellyFraction = Fin 0.5,
                  ki_maxPositionPercent = Fin 0.05\<rparr>
       in kr_positionSize r = Fin 500 \<and> kr_recommendation r = StrongBuy"
    by (simp add: calculateKelly_def Let_def)
qed

theorem calculateKelly_spec_witness:
  "calculateKelly
     \<lparr>ki_currentPrice = Fin (1 / 2), ki_estimatedProbability = Fin (1 / 2),
      ki_bankroll = Fin 1000, ki_kellyFraction = Fin (1 / 2),
      ki_maxPositionPercent = Fin (1 / 8)\<rparr>
   = \<lparr>kr_fraction = Fin 0, kr_positionSize = Fin 0, kr_edge = Fin 0,
      kr_confidence = Fin 0, kr_recommendation = Avoid\<rparr>
   \<and> calculateKelly
       \<lparr>ki_currentPrice = Fin (1 / 2), ki_estimatedProbability = Fin (3 / 4),
        ki_bankroll = Fin 1000, ki_kellyFraction = Fin (1 / 2),
        ki_maxPositionPercent = Fin (1 / 8)\<rparr>
     = \<lparr>kr_fraction = Fin (1 / 8), kr_positionSize = Fin 125, kr_edge = Fin (1 / 4),
        kr_confidence = Fin 1, kr_recommendation = StrongBuy\<rparr>"
proof -
  let ?i = "\<lparr>ki_currentPrice = Fin (1 / 2), ki_estimatedProbability = Fin (1 / 2),
             ki_bankroll = Fin 1000, ki_kellyFraction = Fin (1 / 2),
             ki_maxPositionPercent = Fin (1 / 8)\<rparr>"
  let ?j = "\<lparr>ki_currentPrice = Fin (1 / 2), ki_estimatedProbability = Fin (3 / 4),
             ki_bankroll = Fin 1000, ki_kellyFraction = Fin (1 / 2),
             ki_maxPositionPercent = Fin (1 / 8)\<rparr>"
  note T = calculateKelly_spec [where i = ?i and j = ?j]
  have "ki_estimatedProbability ?i - ki_currentPrice ?i \<le> Fin 0"
    by simp
  with T have first: "calculateKelly ?i =
        \<lparr>kr_fraction = Fin 0, kr_positionSize = Fin 0,
         kr_edge = ki_estimatedProbability ?i - ki_currentPrice ?i,
         kr_confidence = Fin 0, kr_recommendation = Avoid\<rparr>"
    by blast
  have "Fin 0 < ki_estimatedProbability ?j - ki_currentPrice ?j
        \<and> Fin 0 < ki_currentPrice ?j \<and> ki_currentPrice ?j < Fin 1"
    by simp
  with T have "let edge = ki_estimatedProbability ?j - ki_currentPrice ?j;
             fraction = Math_min ((edge / ki_currentPrice ?j) * ki_kellyFraction ?j)
                                 (ki_maxPositionPercent ?j);
             r = calculateKelly ?j
         in
           kr_fraction r = fraction
           \<and> kr_positionSize r = Math_round (ki_bankroll ?j * fraction * Fin 100) / Fin 100
           \<and> kr_edge r = edge
           \<and> kr_confidence r = Math_min (edge / Fin 0.15) (Fin 1)
           \<and> kr_recommendation r =
               (if Fin 0.04 \<le> fraction then StrongBuy
                else if Fin 0.02 \<le> fraction then Buy
                else if Fin 0 < fraction then Hold
                else Avoid)"
    by blast
  then have second: "calculateKelly ?j =
        \<lparr>kr_fraction = Fin (1 / 8), kr_positionSize = Fin 125, kr_edge = Fin (1 / 4),
         kr_confidence = Fin 1, kr_recommendation = StrongBuy\<rparr>"
    by (cases "calculateKelly ?j") (simp add: Let_def)
  from first second show ?thesis
    by simp
qed

section \<open>Risk manager: the daily-loss circuit breaker\<close>

lemma setLimits_keeps [simp]:
  "rm_tradingHalted (setLimits s l) = rm_tradingHalted s"
  "rm_currentEquity (setLimits s l) = rm_currentEquity s"
  "rm_dailyPnL (setLimits s l) = rm_dailyPnL s"
  by (simp_all add: setLimits_def Let_def)

lemma updateEquity_keeps [simp]:
  "rm_tradingHalted (updateEquity s e) = rm_tradingHalted s"
  "rm_currentEquity (updateEquity s e) = e"
  "rm_dailyPnL (updateEquity s e) = rm_dailyPnL s"
  "rm_limits (updateEquity s e) = rm_limits s"
  by (simp_all add: updateEquity_def Let_def)

lemma recordTrade_keeps [simp]:
  "rm_currentEquity (recordTrade s t) = rm_currentEquity s"
  "rm_dailyPnL (recordTrade s t) = rm_dailyPnL s + tr_profitLoss t"
  "rm_limits (recordTrade s t) = rm_limits s"
  "rm_peakEquity (recordTrade s t) = rm_peakEquity s"
  by (simp_all add: recordTrade_def Let_def)

lemma recordTrade_halted:
  "rm_tradingHalted (recordTrade s t) =
     (rm_tradingHalted s \<or>
      (Fin 0 < rm_currentEquity s \<and>
       rl_maxDailyLoss (rm_limits s)
         \<le> Math_abs (rm_dailyPnL s + tr_profitLoss t) / rm_currentEquity s))"
  by (auto simp: recordTrade_def Let_def)

lemma resetDailyPnL_simps [simp]:
  "rm_tradingHalted (resetDailyPnL s) = False"
  "rm_dailyPnL (resetDailyPnL s) = Fin 0"
  "rm_currentEquity (resetDailyPnL s) = rm_currentEquity s"
  by (simp_all add: resetDailyPnL_def)

lemma risk_call_stays_halted:
  "rm_tradingHalted s \<Longrightarrow> \<not> is_reset c \<Longrightarrow> rm_tradingHalted (risk_call s c)"
  by (cases c) (simp_all add: recordTrade_halted)

lemma risk_calls_stay_halted:
  "rm_tradingHalted s \<Longrightarrow> \<not> list_ex is_reset cs \<Longrightarrow> rm_tradingHalted (risk_calls s cs)"
  unfolding risk_calls_def
  by (induction cs arbitrary: s) (simp_all add: risk_call_stays_halted)

lemma risk_call_leaves_halted:
  "rm_tradingHalted s \<Longrightarrow> \<not> rm_tradingHalted (risk_call s c) \<Longrightarrow> c = ResetDailyPnL"
  by (cases c) (simp_all add: recordTrade_halted)

text \<open>
  C2, as stated, fails when no positive equity has been set: on a fresh risk manager the
  current equity is 0, a loss of 100 makes \<open>|dailyPnL| / currentEquity\<close> infinite, which
  is at least the limit 0.10, and trading stays allowed, because \<open>recordTrade\<close> only
  compares the ratio when the current equity is positive.
\<close>

theorem breaker_needs_equity_counterexample:
  "rl_maxDailyLoss (rm_limits new_RiskManager)
     \<le> Math_abs (rm_dailyPnL (recordTrade new_RiskManager \<lparr>tr_profitLoss = Fin (- 100)\<rparr>))
          / rm_currentEquity (recordTrade new_RiskManager \<lparr>tr_profitLoss = Fin (- 100)\<rparr>)
   \<and> isTradingAllowed (recordTrade new_RiskManager \<lparr>tr_profitLoss = Fin (- 100)\<rparr>)"
  by (simp add: new_RiskManager_def isTradingAllowed_def recordTrade_halted less_eq_jsnum_def)

text \<open>
  C2, amended. When the current equity is positive and a \<open>recordTrade\<close> call makes
  \<open>|dailyPnL| / currentEquity\<close> reach \<open>maxDailyLoss\<close>, trading is not allowed after that
  call nor after any further sequence of calls that write the risk manager's state
  (\<open>recordTrade\<close> with profits or losses, \<open>updateEquity\<close>, \<open>setLimits\<close>), as long as
  \<open>resetDailyPnL\<close> is not among them. \<open>resetDailyPnL\<close> sets the daily profit and loss to 0
  and allows trading again, and it is the only call that takes a halted manager back to
  allowed.
\<close>

theorem circuit_breaker_latches:
  "(Fin 0 < rm_currentEquity s
      \<and> rl_maxDailyLoss (rm_limits s)
           \<le> Math_abs (rm_dailyPnL (recordTrade s t)) / rm_currentEquity s
      \<and> \<not> list_ex is_reset cs
      \<longrightarrow> \<not> isTradingAllowed (risk_calls (recordTrade s t) cs))
   \<and> rm_dailyPnL (resetDailyPnL s) = Fin 0
   \<and> isTradingAllowed (resetDailyPnL s)
   \<and> (\<not> isTradingAllowed s \<and> isTradingAllowed (risk_call s c) \<longrightarrow> c = ResetDailyPnL)"
proof (intro conjI impI)
  assume h: "Fin 0 < rm_currentEquity s
      \<and> rl_maxDailyLoss (rm_limits s)
           \<le> Math_abs (rm_dailyPnL (recordTrade s t)) / rm_currentEquity s
      \<and> \<not> list_ex is_reset cs"
  then have "rm_tradingHalted (recordTrade s t)"
    by (simp add: recordTrade_halted)
  with h have "rm_tradingHalted (risk_calls (recordTrade s t) cs)"
    by (simp add: risk_calls_stay_halted)
  then show "\<not> isTradingAllowed (risk_calls (recordTrade s t) cs)"
    by (simp add: isTradingAllowed_def)
next
  show "rm_dailyPnL (resetDailyPnL s) = Fin 0" by simp
next
  show "isTradingAllowed (resetDailyPnL s)" by (simp add: isTradingAllowed_def)
next
  assume "\<not> isTradingAllowed s \<and> isTradingAllowed (risk_call s c)"
  then show "c = ResetDailyPnL"
    using risk_call_leaves_halted [of s c] by (simp add: isTradingAllowed_def)
qed

theorem circuit_breaker_latches_witness:
  "\<not> isTradingAllowed
       (risk_calls
          (recordTrade (updateEquity new_RiskManager (Fin 1000)) \<lparr>tr_profitLoss = Fin (- 100)\<rparr>)
          [RecordTrade \<lparr>tr_profitLoss = Fin 100\<rparr>, UpdateEquity (Fin 5000)])
   \<and> \<not> isTradingAllowed
       (recordTrade (updateEquity new_RiskManager (Fin 1000)) \<lparr>tr_profitLoss = Fin (- 100)\<rparr>)
   \<and> isTradingAllowed
       (risk_call
         (recordTrade (updateEquity new_RiskManager (Fin 1000)) \<lparr>tr_profitLoss = Fin (- 100)\<rparr>)
         ResetDailyPnL)"
  using circuit_breaker_latches
          [of "updateEquity new_RiskManager (Fin 1000)" "\<lparr>tr_profitLoss = Fin (- 100)\<rparr>"
              "[RecordTrade \<lparr>tr_profitLoss = Fin 100\<rparr>, UpdateEquity (Fin 5000)]" ResetDailyPnL]
        circuit_breaker_latches
          [of "updateEquity new_RiskManager (Fin 1000)" "\<lparr>tr_profitLoss = Fin (- 100)\<rparr>"
              "[]" ResetDailyPnL]
        circuit_breaker_latches
          [of "recordTrade (updateEquity new_RiskManager (Fin 1000))
                 \<lparr>tr_profitLoss = Fin (- 100)\<rparr>"
              "\<lparr>tr_profitLoss = Fin 0\<rparr>" "[]" ResetDailyPnL]
  by (simp add: new_RiskManager_def risk_calls_def)

lemma recordTrades_no_equity:
  "\<not> Fin 0 < rm_currentEquity s \<Longrightarrow>
   rm_tradingHalted (foldl recordTrade s ts) = rm_tradingHalted s
   \<and> rm_currentEquity (foldl recordTrade s ts) = rm_currentEquity s
   \<and> rm_dailyPnL (foldl recordTrade s ts)
       = foldl (\<lambda>a t. a + tr_profitLoss t) (rm_dailyPnL s) ts"
  by (induction ts arbitrary: s) (simp_all add: recordTrade_halted)

lemma risk_call_no_equity:
  "\<not> Fin 0 < rm_currentEquity s \<Longrightarrow> \<not> rm_tradingHalted s \<Longrightarrow> nonpositive_equity c \<Longrightarrow>
   \<not> Fin 0 < rm_currentEquity (risk_call s c) \<and> \<not> rm_tradingHalted (risk_call s c)"
  by (cases c) (simp_all add: recordTrade_halted)

lemma risk_calls_no_equity:
  "\<not> Fin 0 < rm_currentEquity s \<Longrightarrow> \<not> rm_tradingHalted s \<Longrightarrow>
   list_all nonpositive_equity cs \<Longrightarrow> \<not> rm_tradingHalted (risk_calls s cs)"
  unfolding risk_calls_def
proof (induction cs arbitrary: s)
  case Nil
  then show ?case by simp
next
  case (Cons c cs)
  from risk_call_no_equity [of s c] Cons.prems
  have "\<not> Fin 0 < rm_currentEquity (risk_call s c)" "\<not> rm_tradingHalted (risk_call s c)"
    by simp_all
  with Cons show ?case by simp
qed

text \<open>
  C10. While the current equity is not positive, \<open>recordTrade\<close> never halts trading: a
  manager that is not halted and whose current equity is zero, negative or NaN stays
  allowed through every sequence of trades, while its daily profit and loss accumulates
  every one of them. In particular a fresh risk manager stays allowed through every
  sequence of calls in which no \<open>updateEquity\<close> sets a positive equity.
\<close>

theorem no_equity_never_halts:
  "(\<not> Fin 0 < rm_currentEquity s \<and> isTradingAllowed s \<longrightarrow>
      isTradingAllowed (foldl recordTrade s ts)
      \<and> getDailyPnL (foldl recordTrade s ts)
          = foldl (\<lambda>a t. a + tr_profitLoss t) (getDailyPnL s) ts)
   \<and> (list_all nonpositive_equity cs \<longrightarrow> isTradingAllowed (risk_calls new_RiskManager cs))"
proof (intro conjI impI)
  assume h: "\<not> Fin 0 < rm_currentEquity s \<and> isTradingAllowed s"
  with recordTrades_no_equity [of s ts]
  show "isTradingAllowed (foldl recordTrade s ts)"
    by (simp add: isTradingAllowed_def)
next
  assume h: "\<not> Fin 0 < rm_currentEquity s \<and> isTradingAllowed s"
  with recordTrades_no_equity [of s ts]
  show "getDailyPnL (foldl recordTrade s ts)
          = foldl (\<lambda>a t. a + tr_profitLoss t) (getDailyPnL s) ts"
    by (simp add: getDailyPnL_def)
next
  assume "list_all nonpositive_equity cs"
  with risk_calls_no_equity [of new_RiskManager cs]
  have "\<not> rm_tradingHalted (risk_calls new_RiskManager cs)"
    by (simp add: new_RiskManager_def)
  then show "isTradingAllowed (risk_calls new_RiskManager cs)"
    by (simp add: isTradingAllowed_def)
qed

theorem no_equity_never_halts_witness:
  "isTradingAllowed
     (foldl recordTrade new_RiskManager
        [\<lparr>tr_profitLoss = Fin (- 5000)\<rparr>, \<lparr>tr_profitLoss = Fin (- 5000)\<rparr>])
   \<and> getDailyPnL
       (foldl recordTrade new_RiskManager
          [\<lparr>tr_profitLoss = Fin (- 5000)\<rparr>, \<lparr>tr_profitLoss = Fin (- 5000)\<rparr>])
       = Fin (- 10000)
   \<and> isTradingAllowed
       (risk_calls new_RiskManager
          [UpdateEquity (Fin 0), RecordTrade \<lparr>tr_profitLoss = Fin (- 1000000)\<rparr>,
           UpdateEquity (Fin (- 5)), RecordTrade \<lparr>tr_profitLoss = Fin (- 1)\<rparr>])"
proof -
  have a: "\<not> Fin 0 < rm_currentEquity new_RiskManager \<and> isTradingAllowed new_RiskManager"
    by (simp add: new_RiskManager_def isTradingAllowed_def)
  have b: "list_all nonpositive_equity
             [UpdateEquity (Fin 0), RecordTrade \<lparr>tr_profitLoss = Fin (- 1000000)\<rparr>,
              UpdateEquity (Fin (- 5)), RecordTrade \<lparr>tr_profitLoss = Fin (- 1)\<rparr>]"
    by simp
  have c: "getDailyPnL new_RiskManager = Fin 0"
    by (simp add: new_RiskManager_def getDailyPnL_def)
  from a b c no_equity_never_halts
         [of new_RiskManager
             "[\<lparr>tr_profitLoss = Fin (- 5000)\<rparr>, \<lparr>tr_profitLoss = Fin (- 5000)\<rparr>]"
             "[UpdateEquity (Fin 0), RecordTrade \<lparr>tr_profitLoss = Fin (- 1000000)\<rparr>,
               UpdateEquity (Fin (- 5)), RecordTrade \<lparr>tr_profitLoss = Fin (- 1)\<rparr>]"]
  show ?thesis by simp
qed

section \<open>Risk manager: position validation\<close>

text \<open>
  C4. \<open>validatePosition\<close> refuses when trading is halted. Otherwise, on the numbers as
  it computes them, with the existing exposure \<open>E\<close> (the sum of \<open>entryPrice * quantity\<close>
  over the existing positions) and the limit \<open>L = maxTotalExposure * bankroll\<close>: when the
  computed \<open>(E + positionSize) / bankroll\<close> exceeds \<open>maxTotalExposure\<close>, the result is a
  refusal if the computed \<open>L - E\<close> is not positive and otherwise an approval with the
  adjusted size \<open>L - E\<close>, whatever the single-position cap. The cap is looked at only
  when the exposure check passes: then a computed \<open>positionSize / bankroll\<close> above
  \<open>maxPositionSize\<close> yields the one adjusted size \<open>bankroll * maxPositionSize\<close>, and any
  other request is approved as it is.
  With the limit 0.25, the bankroll 10000, an existing exposure of 2000 and a requested size
  of 1000 the result is an approval with the adjusted size 500.
\<close>

theorem validatePosition_spec:
  "(rm_tradingHalted s \<longrightarrow>
      validatePosition s positionSize bankroll xs =
        \<lparr>v_allowed = False, v_reason = Some ''Trading halted due to daily loss limit'',
         v_adjustedSize = None\<rparr>)
   \<and> (\<not> rm_tradingHalted s
        \<and> rl_maxTotalExposure (rm_limits s)
              < (reduce_sum positionValue xs + positionSize) / bankroll \<longrightarrow>
        validatePosition s positionSize bankroll xs =
          (if rl_maxTotalExposure (rm_limits s) * bankroll - reduce_sum positionValue xs
                \<le> Fin 0
           then \<lparr>v_allowed = False, v_reason = Some ''Maximum exposure limit reached'',
                 v_adjustedSize = None\<rparr>
           else \<lparr>v_allowed = True,
                 v_reason = Some ''Position size reduced to stay within exposure limits'',
                 v_adjustedSize =
                   Some (rl_maxTotalExposure (rm_limits s) * bankroll
                         - reduce_sum positionValue xs)\<rparr>))
   \<and> (\<not> rm_tradingHalted s
        \<and> \<not> rl_maxTotalExposure (rm_limits s)
                < (reduce_sum positionValue xs + positionSize) / bankroll \<longrightarrow>
        validatePosition s positionSize bankroll xs =
          (if rl_maxPositionSize (rm_limits s) < positionSize / bankroll
           then \<lparr>v_allowed = True, v_reason = Some ''Position size reduced to maximum allowed'',
                 v_adjustedSize = Some (bankroll * rl_maxPositionSize (rm_limits s))\<rparr>
           else \<lparr>v_allowed = True, v_reason = None, v_adjustedSize = None\<rparr>))
   \<and> validatePosition new_RiskManager (Fin 1000) (Fin 10000)
        [\<lparr>pos_marketQuestion = ''Will BTC close above 100k?'', pos_entryPrice = Fin 0.5,
          pos_currentPrice = Fin 0.5, pos_quantity = Fin 4000, pos_stopLoss = None,
          pos_takeProfit = None\<rparr>]
      = \<lparr>v_allowed = True,
         v_reason = Some ''Position size reduced to stay within exposure limits'',
         v_adjustedSize = Some (Fin 500)\<rparr>"
proof (intro conjI impI)
  assume "rm_tradingHalted s"
  then show "validatePosition s positionSize bankroll xs =
        \<lparr>v_allowed = False, v_reason = Some ''Trading halted due to daily loss limit'',
         v_adjustedSize = None\<rparr>"
    by (simp add: validatePosition_def)
next
  assume "\<not> rm_tradingHalted s
        \<and> rl_maxTotalExposure (rm_limits s)
              < (reduce_sum positionValue xs + positionSize) / bankroll"
  then show "validatePosition s positionSize bankroll xs =
          (if rl_maxTotalExposure (rm_limits s) * bankroll - reduce_sum positionValue xs
                \<le> Fin 0
           then \<lparr>v_allowed = False, v_reason = Some ''Maximum exposure limit reached'',
                 v_adjustedSize = None\<rparr>
           else \<lparr>v_allowed = True,
                 v_reason = Some ''Position size reduced to stay within exposure limits'',
                 v_adjustedSize =
                   Some (rl_maxTotalExposure (rm_limits s) * bankroll
                         - reduce_sum positionValue xs)\<rparr>)"
    by (simp add: validatePosition_def Let_def)
next
  assume "\<not> rm_tradingHalted s
        \<and> \<not> rl_maxTotalExposure (rm_limits s)
                < (reduce_sum positionValue xs + positionSize) / bankroll"
  then show "validatePosition s positionSize bankroll xs =
          (if rl_maxPositionSize (rm_limits s) < positionSize / bankroll
           then \<lparr>v_allowed = True, v_reason = Some ''Position size reduced to maximum allowed'',
                 v_adjustedSize = Some (bankroll * rl_maxPositionSize (rm_limits s))\<rparr>
           else \<lparr>v_allowed = True, v_reason = None, v_adjustedSize = None\<rparr>)"
    by (simp add: validatePosition_def Let_def)
next
  show "validatePosition new_RiskManager (Fin 1000) (Fin 10000)
        [\<lparr>pos_marketQuestion = ''Will BTC close above 100k?'', pos_entryPrice = Fin 0.5,
          pos_currentPrice = Fin 0.5, pos_quantity = Fin 4000, pos_stopLoss = None,
          pos_takeProfit = None\<rparr>]
      = \<lparr>v_allowed = True,
         v_reason = Some ''Position size reduced to stay within exposure limits'',
         v_adjustedSize = Some (Fin 500)\<rparr>"
    by (simp add: validatePosition_def new_RiskManager_def Let_def reduce_sum_def
        positionValue_def)
qed

theorem validatePosition_spec_witness:
  "validatePosition
     (recordTrade (updateEquity new_RiskManager (Fin 1000)) \<lparr>tr_profitLoss = Fin (- 100)\<rparr>)
     (Fin 10) (Fin 10000) []
   = \<lparr>v_allowed = False, v_reason = Some ''Trading halted due to daily loss limit'',
      v_adjustedSize = None\<rparr>
   \<and> validatePosition new_RiskManager (Fin 1000) (Fin 10000)
        [\<lparr>pos_marketQuestion = ''A'', pos_entryPrice = Fin (1 / 2),
          pos_currentPrice = Fin (1 / 2), pos_quantity = Fin 4800, pos_stopLoss = None,
          pos_takeProfit = None\<rparr>]
      = \<lparr>v_allowed = True,
         v_reason = Some ''Position size reduced to stay within exposure limits'',
         v_adjustedSize = Some (Fin 100)\<rparr>
   \<and> validatePosition new_RiskManager (Fin 1000) (Fin 10000)
        [\<lparr>pos_marketQuestion = ''A'', pos_entryPrice = Fin (1 / 2),
          pos_currentPrice = Fin (1 / 2), pos_quantity = Fin 5000, pos_stopLoss = None,
          pos_takeProfit = None\<rparr>]
      = \<lparr>v_allowed = False, v_reason = Some ''Maximum exposure limit reached'',
         v_adjustedSize = None\<rparr>
   \<and> validatePosition new_RiskManager (Fin 1000) (Fin 10000) []
      = \<lparr>v_allowed = True, v_reason = Some ''Position size reduced to maximum allowed'',
         v_adjustedSize = Some (Fin 500)\<rparr>"
proof -
  let ?halted = "recordTrade (updateEquity new_RiskManager (Fin 1000))
                   \<lparr>tr_profitLoss = Fin (- 100)\<rparr>"
  let ?a = "[\<lparr>pos_marketQuestion = ''A'', pos_entryPrice = Fin (1 / 2),
              pos_currentPrice = Fin (1 / 2), pos_quantity = Fin 4800, pos_stopLoss = None,
              pos_takeProfit = None\<rparr>]"
  let ?b = "[\<lparr>pos_marketQuestion = ''A'', pos_entryPrice = Fin (1 / 2),
              pos_currentPrice = Fin (1 / 2), pos_quantity = Fin 5000, pos_stopLoss = None,
              pos_takeProfit = None\<rparr>]"
  have halted: "rm_tradingHalted ?halted"
    by (simp add: new_RiskManager_def recordTrade_halted)
  have ea: "reduce_sum positionValue ?a = Fin 2400"
    and eb: "reduce_sum positionValue ?b = Fin 2500"
    and e0: "reduce_sum positionValue ([] :: Position list) = Fin 0"
    by (simp_all add: reduce_sum_def positionValue_def)
  have lim: "rl_maxTotalExposure (rm_limits new_RiskManager) = Fin (1 / 4)"
    "rl_maxPositionSize (rm_limits new_RiskManager) = Fin (1 / 20)"
    "\<not> rm_tradingHalted new_RiskManager"
    by (simp_all add: new_RiskManager_def)
  have over_a: "\<not> rm_tradingHalted new_RiskManager
        \<and> rl_maxTotalExposure (rm_limits new_RiskManager)
              < (reduce_sum positionValue ?a + Fin 1000) / Fin 10000"
    unfolding ea lim by (simp add: lim)
  have over_b: "\<not> rm_tradingHalted new_RiskManager
        \<and> rl_maxTotalExposure (rm_limits new_RiskManager)
              < (reduce_sum positionValue ?b + Fin 1000) / Fin 10000"
    unfolding eb lim by (simp add: lim)
  have under: "\<not> rm_tradingHalted new_RiskManager
        \<and> \<not> rl_maxTotalExposure (rm_limits new_RiskManager)
                < (reduce_sum positionValue ([] :: Position list) + Fin 1000) / Fin 10000"
    unfolding e0 lim by (simp add: lim)
  from validatePosition_spec
         [where s = ?halted and positionSize = "Fin 10" and bankroll = "Fin 10000"
            and xs = "[]"] halted
  have one: "validatePosition ?halted (Fin 10) (Fin 10000) [] =
        \<lparr>v_allowed = False, v_reason = Some ''Trading halted due to daily loss limit'',
         v_adjustedSize = None\<rparr>"
    by blast
  from validatePosition_spec
         [where s = new_RiskManager and positionSize = "Fin 1000" and bankroll = "Fin 10000"
            and xs = ?a] over_a
  have "validatePosition new_RiskManager (Fin 1000) (Fin 10000) ?a =
          (if rl_maxTotalExposure (rm_limits new_RiskManager) * Fin 10000
                - reduce_sum positionValue ?a \<le> Fin 0
           then \<lparr>v_allowed = False, v_reason = Some ''Maximum exposure limit reached'',
                 v_adjustedSize = None\<rparr>
           else \<lparr>v_allowed = True,
                 v_reason = Some ''Position size reduced to stay within exposure limits'',
                 v_adjustedSize =
                   Some (rl_maxTotalExposure (rm_limits new_RiskManager) * Fin 10000
                         - reduce_sum positionValue ?a)\<rparr>)"
    by blast
  then have two: "validatePosition new_RiskManager (Fin 1000) (Fin 10000) ?a =
      \<lparr>v_allowed = True,
       v_reason = Some ''Position size reduced to stay within exposure limits'',
       v_adjustedSize = Some (Fin 100)\<rparr>"
    unfolding ea lim by simp
  from validatePosition_spec
         [where s = new_RiskManager and positionSize = "Fin 1000" and bankroll = "Fin 10000"
            and xs = ?b] over_b
  have "validatePosition new_RiskManager (Fin 1000) (Fin 10000) ?b =
          (if rl_maxTotalExposure (rm_limits new_RiskManager) * Fin 10000
                - reduce_sum positionValue ?b \<le> Fin 0
           then \<lparr>v_allowed = False, v_reason = Some ''Maximum exposure limit reached'',
                 v_adjustedSize = None\<rparr>
           else \<lparr>v_allowed = True,
                 v_reason = Some ''Position size reduced to stay within exposure limits'',
                 v_adjustedSize =
                   Some (rl_maxTotalExposure (rm_limits new_RiskManager) * Fin 10000
                         - reduce_sum positionValue ?b)\<rparr>)"
    by blast
  then have three: "validatePosition new_RiskManager (Fin 1000) (Fin 10000) ?b =
      \<lparr>v_allowed = False, v_reason = Some ''Maximum exposure limit reached'',
       v_adjustedSize = None\<rparr>"
    unfolding eb lim by simp
  from validatePosition_spec
         [where s = new_RiskManager and positionSize = "Fin 1000" and bankroll = "Fin 10000"
            and xs = "[]"] under
  have "validatePosition new_RiskManager (Fin 1000) (Fin 10000) [] =
          (if rl_maxPositionSize (rm_limits new_RiskManager) < Fin 1000 / Fin 10000
           then \<lparr>v_allowed = True, v_reason = Some ''Position size reduced to maximum allowed'',
                 v_adjustedSize = Some (Fin 10000 * rl_maxPositionSize (rm_limits new_RiskManager))\<rparr>
           else \<lparr>v_allowed = True, v_reason = None, v_adjustedSize = None\<rparr>)"
    by blast
  then have four: "validatePosition new_RiskManager (Fin 1000) (Fin 10000) [] =
      \<lparr>v_allowed = True, v_reason = Some ''Position size reduced to maximum allowed'',
       v_adjustedSize = Some (Fin 500)\<rparr>"
    unfolding lim by simp
  from one two three four show ?thesis
    by blast
qed

section \<open>Risk manager: value at risk\<close>














section \<open>Spike detector: the bounded price history\<close>

lemma push_bounded_most_recent:
  "push_bounded w (most_recent w xs) x = most_recent w (xs @ [x])"
proof (cases "length xs < w")
  case True
  then show ?thesis
    by (simp add: push_bounded_def most_recent_def Let_def)
next
  case False
  define k where "k = length xs - w"
  have k: "k \<le> length xs" "length xs - k = w" "length (xs @ [x]) - w = Suc k"
    using False by (simp_all add: k_def)
  have a: "drop k xs @ [x] = drop k (xs @ [x])"
    using k(1) by simp
  have b: "tl (drop k (xs @ [x])) = drop (Suc k) (xs @ [x])"
    by (simp only: drop_Suc tl_drop)
  have "push_bounded w (drop k xs) x = tl (drop k xs @ [x])"
    using k(2) by (simp add: push_bounded_def Let_def)
  also have "\<dots> = drop (Suc k) (xs @ [x])"
    unfolding a b ..
  finally show ?thesis
    unfolding most_recent_def k(3) k_def [symmetric] .
qed

lemma foldl_push_bounded:
  "foldl (push_bounded w) (most_recent w xs) ps = most_recent w (xs @ ps)"
proof (induction ps arbitrary: xs)
  case Nil
  then show ?case by simp
next
  case (Cons p ps)
  show ?case
    using Cons [of "xs @ [p]"] by (simp add: push_bounded_most_recent)
qed

lemma getPriceHistory_recordPrice:
  "getPriceHistory (recordPrice d m' price volume now) m =
     (if m = m'
      then push_bounded (sd_defaultWindowSize d) (getPriceHistory d m)
             (price_point now m' price volume)
      else getPriceHistory d m)"
  by (simp add: getPriceHistory_def recordPrice_def Let_def price_point_def)

lemma window_recordPrice [simp]:
  "sd_defaultWindowSize (recordPrice d m price volume now) = sd_defaultWindowSize d"
  by (simp add: recordPrice_def Let_def)

lemma cooldowns_recordPrice [simp]:
  "sd_cooldowns (recordPrice d m price volume now) = sd_cooldowns d"
  by (simp add: recordPrice_def Let_def)

lemma detectSpike_keeps [simp]:
  "sd_priceHistory (snd (detectSpike d m st now)) = sd_priceHistory d"
  "sd_defaultWindowSize (snd (detectSpike d m st now)) = sd_defaultWindowSize d"
  by (simp_all add: detectSpike_def Let_def split: option.splits)

lemma getPriceHistory_detectSpike [simp]:
  "getPriceHistory (snd (detectSpike d m' st now)) m = getPriceHistory d m"
  by (simp add: getPriceHistory_def)

lemma analyzeMarket_history:
  "getPriceHistory (snd (analyzeMarket st now (sp, d) market)) m =
     getPriceHistory (recordPrice d (mk_id market) (at_index (mk_outcomePrices market) 0)
                        (Some (mk_volume market)) now) m"
  "sd_defaultWindowSize (snd (analyzeMarket st now (sp, d) market)) = sd_defaultWindowSize d"
proof -
  let ?d1 = "recordPrice d (mk_id market) (at_index (mk_outcomePrices market) 0)
                        (Some (mk_volume market)) now"
  obtain r d2 where r: "detectSpike ?d1 (mk_id market) st now = (r, d2)"
    by (cases "detectSpike ?d1 (mk_id market) st now")
  from r have d2: "d2 = snd (detectSpike ?d1 (mk_id market) st now)" by simp
  have h: "sd_priceHistory d2 = sd_priceHistory ?d1" "sd_defaultWindowSize d2 = sd_defaultWindowSize d"
    unfolding d2 by simp_all
  show "getPriceHistory (snd (analyzeMarket st now (sp, d) market)) m = getPriceHistory ?d1 m"
    using h by (cases r) (simp_all add: analyzeMarket_def Let_def r getPriceHistory_def)
  show "sd_defaultWindowSize (snd (analyzeMarket st now (sp, d) market)) = sd_defaultWindowSize d"
    using h by (cases r) (simp_all add: analyzeMarket_def Let_def r)
qed

lemma analyzeMarkets_history:
  "getPriceHistory (snd (foldl (analyzeMarket st now) (sp, d) markets)) m =
     foldl (push_bounded (sd_defaultWindowSize d)) (getPriceHistory d m)
       (filter (\<lambda>p. pp_marketId p = m) (points_of (now, AnalyzeMarkets markets st)))
   \<and> sd_defaultWindowSize (snd (foldl (analyzeMarket st now) (sp, d) markets))
       = sd_defaultWindowSize d"
proof (induction markets arbitrary: sp d)
  case Nil
  then show ?case by simp
next
  case (Cons market markets)
  obtain sp1 d1 where s1: "analyzeMarket st now (sp, d) market = (sp1, d1)"
    by (cases "analyzeMarket st now (sp, d) market")
  have h1: "getPriceHistory d1 m =
     getPriceHistory (recordPrice d (mk_id market) (at_index (mk_outcomePrices market) 0)
                        (Some (mk_volume market)) now) m"
    and w1: "sd_defaultWindowSize d1 = sd_defaultWindowSize d"
    using analyzeMarket_history [of st now sp d market] by (simp_all add: s1)
  show ?case
    using Cons [of sp1 d1] by (auto simp: s1 h1 w1 getPriceHistory_recordPrice price_point_def)
qed

lemma spike_call_history:
  "getPriceHistory (spike_call d c) m =
     foldl (push_bounded (sd_defaultWindowSize d)) (getPriceHistory d m)
       (filter (\<lambda>p. pp_marketId p = m) (points_of c))
   \<and> sd_defaultWindowSize (spike_call d c) = sd_defaultWindowSize d"
proof (cases c)
  case (Pair now call)
  show ?thesis
  proof (cases call)
    case (RecordPrice m' price volume)
    then show ?thesis
      by (simp add: Pair getPriceHistory_recordPrice price_point_def)
  next
    case (DetectSpike m' st)
    then show ?thesis by (simp add: Pair)
  next
    case (AnalyzeMarkets markets st)
    then show ?thesis
      using analyzeMarkets_history [of st now "[]" d markets m]
      by (simp add: Pair analyzeMarkets_def)
  qed
qed

lemma spike_calls_history:
  "getPriceHistory (spike_calls d cs) m =
     foldl (push_bounded (sd_defaultWindowSize d)) (getPriceHistory d m) (recorded m cs)
   \<and> sd_defaultWindowSize (spike_calls d cs) = sd_defaultWindowSize d"
  unfolding spike_calls_def recorded_def
proof (induction cs arbitrary: d)
  case Nil
  then show ?case by simp
next
  case (Cons c cs)
  show ?case
    using Cons [of "spike_call d c"] spike_call_history [of d c m] by simp
qed

lemma recordPrice_evicts_oldest:
  assumes "length (getPriceHistory d m) = sd_defaultWindowSize d" and "0 < sd_defaultWindowSize d"
  shows "getPriceHistory (recordPrice d m price volume now) m
           = tl (getPriceHistory d m) @ [price_point now m price volume]"
proof -
  from assms have "getPriceHistory d m \<noteq> []" by auto
  with assms(1) show ?thesis
    by (simp add: getPriceHistory_recordPrice push_bounded_def Let_def)
qed

text \<open>
  C7. On a detector created with the window size \<open>w\<close>, after any sequence of calls that
  record prices (\<open>recordPrice\<close>, directly or through \<open>analyzeMarkets\<close>, with detections in
  between), the history kept for a market is the list of the \<open>w\<close> most recent points
  recorded for it, in the order they were appended. Its length never exceeds \<open>w\<close>, and is
  exactly \<open>w\<close> once more than \<open>w\<close> points have been recorded. A recording onto a full history
  drops the oldest point and appends the new one.
\<close>

theorem price_history_bounded_fifo:
  "getPriceHistory (spike_calls (new_SpikeDetector w) cs) m = most_recent w (recorded m cs)
   \<and> length (getPriceHistory (spike_calls (new_SpikeDetector w) cs) m) \<le> w
   \<and> (w < length (recorded m cs) \<longrightarrow>
        length (getPriceHistory (spike_calls (new_SpikeDetector w) cs) m) = w)
   \<and> (length (getPriceHistory d m) = sd_defaultWindowSize d \<and> 0 < sd_defaultWindowSize d \<longrightarrow>
        getPriceHistory (recordPrice d m price volume now) m
          = tl (getPriceHistory d m) @ [price_point now m price volume])"
proof -
  have "getPriceHistory (new_SpikeDetector w) m = most_recent w []"
    by (simp add: getPriceHistory_def new_SpikeDetector_def most_recent_def)
  then have "getPriceHistory (spike_calls (new_SpikeDetector w) cs) m
               = most_recent w (recorded m cs)"
    using spike_calls_history [of "new_SpikeDetector w" cs m] foldl_push_bounded [of w "[]"]
    by (simp add: new_SpikeDetector_def)
  then show ?thesis
    using recordPrice_evicts_oldest [of d m price volume now]
    by (simp add: most_recent_def)
qed

theorem price_history_bounded_fifo_witness:
  "getPriceHistory
     (spike_calls (new_SpikeDetector 2)
        [(1, RecordPrice ''m'' (Fin 0.5) None), (2, RecordPrice ''m'' (Fin 0.25) None),
         (3, RecordPrice ''m'' (Fin 0.75) None)]) ''m''
   = [price_point 2 ''m'' (Fin 0.25) None, price_point 3 ''m'' (Fin 0.75) None]
   \<and> getPriceHistory
       (recordPrice
          (spike_calls (new_SpikeDetector 2)
             [(1, RecordPrice ''m'' (Fin 0.5) None), (2, RecordPrice ''m'' (Fin 0.25) None),
              (3, RecordPrice ''m'' (Fin 0.75) None)])
          ''m'' (Fin 1) None 4) ''m''
     = [price_point 3 ''m'' (Fin 0.75) None, price_point 4 ''m'' (Fin 1) None]"
proof -
  let ?cs = "[(1, RecordPrice ''m'' (Fin 0.5) None), (2, RecordPrice ''m'' (Fin 0.25) None),
              (3, RecordPrice ''m'' (Fin 0.75) None)]"
  let ?d = "spike_calls (new_SpikeDetector 2) ?cs"
  have r: "recorded ''m'' ?cs
             = [price_point 1 ''m'' (Fin 0.5) None, price_point 2 ''m'' (Fin 0.25) None,
                price_point 3 ''m'' (Fin 0.75) None]"
    by (simp add: recorded_def price_point_def)
  have w: "sd_defaultWindowSize ?d = 2"
    using spike_calls_history [of "new_SpikeDetector 2" ?cs "''m''"]
    by (simp add: new_SpikeDetector_def)
  from price_history_bounded_fifo [of 2 ?cs "''m''" ?d "Fin 1" None 4]
  show ?thesis
    unfolding r w by (simp add: most_recent_def)
qed

section \<open>Spike detector: the cooldown\<close>

lemma less_or_default: "ms now < c \<Longrightarrow> ms now < or_default c (Fin 0)"
  by (cases c) (auto simp: or_default_def ms_def)

lemma le_ms_less: "u \<le> t' \<Longrightarrow> ms t' < c \<Longrightarrow> ms u < c"
  by (cases c) (auto simp: ms_def)

lemma detectSpike_in_cooldown:
  "sd_cooldowns d m = Some c \<Longrightarrow> ms now < c \<Longrightarrow> detectSpike d m st now = (None, d)"
  by (simp add: detectSpike_def Let_def less_or_default split: option.splits)

lemma detectSpike_other_cooldown:
  "m' \<noteq> m \<Longrightarrow> sd_cooldowns (snd (detectSpike d m' st now)) m = sd_cooldowns d m"
  by (simp add: detectSpike_def Let_def split: option.splits)

lemma detectSpike_sets_cooldown:
  "fst (detectSpike d m st now) \<noteq> None \<Longrightarrow>
   sd_cooldowns (snd (detectSpike d m st now)) m = Some (ms now + ss_cooldownMs st)"
  by (auto simp: detectSpike_def Let_def split: option.splits if_splits)

lemma detectSpike_keeps_cooldown:
  "sd_cooldowns d m = Some c \<Longrightarrow> ms now < c \<Longrightarrow>
   sd_cooldowns (snd (detectSpike d m' st now)) m = Some c"
  by (cases "m' = m") (simp_all add: detectSpike_in_cooldown detectSpike_other_cooldown)

lemma analyzeMarket_keeps_cooldown:
  assumes "sd_cooldowns d m = Some c" and "ms now < c"
  shows "sd_cooldowns (snd (analyzeMarket st now (sp, d) market)) m = Some c"
proof -
  let ?d1 = "recordPrice d (mk_id market) (at_index (mk_outcomePrices market) 0)
                        (Some (mk_volume market)) now"
  obtain r d2 where r: "detectSpike ?d1 (mk_id market) st now = (r, d2)"
    by (cases "detectSpike ?d1 (mk_id market) st now")
  have "sd_cooldowns (snd (detectSpike ?d1 (mk_id market) st now)) m = Some c"
    using assms by (intro detectSpike_keeps_cooldown) simp_all
  then have "sd_cooldowns d2 m = Some c"
    by (simp add: r)
  then show ?thesis
    by (cases r) (simp_all add: analyzeMarket_def Let_def r)
qed

lemma analyzeMarkets_keep_cooldown:
  "sd_cooldowns d m = Some c \<Longrightarrow> ms now < c \<Longrightarrow>
   sd_cooldowns (snd (foldl (analyzeMarket st now) (sp, d) markets)) m = Some c"
proof (induction markets arbitrary: sp d)
  case Nil
  then show ?case by simp
next
  case (Cons market markets)
  obtain sp1 d1 where s1: "analyzeMarket st now (sp, d) market = (sp1, d1)"
    by (cases "analyzeMarket st now (sp, d) market")
  have "sd_cooldowns d1 m = Some c"
    using analyzeMarket_keeps_cooldown [OF Cons.prems, of st sp market] by (simp add: s1)
  then show ?case
    using Cons.IH [of d1 sp1] Cons.prems(2) by (simp add: s1)
qed

lemma spike_call_keeps_cooldown:
  assumes "sd_cooldowns d m = Some c" and "ms (fst tc) < c"
  shows "sd_cooldowns (spike_call d tc) m = Some c"
proof (cases tc)
  case (Pair now call)
  with assms have now: "ms now < c" by simp
  show ?thesis
  proof (cases call)
    case (RecordPrice m' price volume)
    then show ?thesis by (simp add: Pair assms(1))
  next
    case (DetectSpike m' st)
    then show ?thesis by (simp add: Pair detectSpike_keeps_cooldown assms(1) now)
  next
    case (AnalyzeMarkets markets st)
    then show ?thesis
      by (simp add: Pair analyzeMarkets_def analyzeMarkets_keep_cooldown assms(1) now)
  qed
qed

lemma spike_calls_keep_cooldown:
  "sd_cooldowns d m = Some c \<Longrightarrow> \<forall>tc\<in>set cs. ms (fst tc) < c \<Longrightarrow>
   sd_cooldowns (spike_calls d cs) m = Some c"
  unfolding spike_calls_def
  by (induction cs arbitrary: d) (simp_all add: spike_call_keeps_cooldown)

text \<open>
  C6. When \<open>detectSpike\<close> reports a spike for a market at the time \<open>t\<close>, it sets the
  market's cooldown end to \<open>t + settings.cooldownMs\<close>. Whatever calls feed and query the
  detector afterwards, at times that do not go backwards, a \<open>detectSpike\<close> call for the
  same market at a time before that cooldown end returns none, with any settings.
\<close>

theorem cooldown_suppresses_repeat:
  "fst (detectSpike d m st t) \<noteq> None
   \<and> sorted (t # map fst cs @ [t'])
   \<and> ms t' < ms t + ss_cooldownMs st \<longrightarrow>
   sd_cooldowns (snd (detectSpike d m st t)) m = Some (ms t + ss_cooldownMs st)
   \<and> fst (detectSpike (spike_calls (snd (detectSpike d m st t)) cs) m st' t') = None"
proof (intro impI)
  assume h: "fst (detectSpike d m st t) \<noteq> None
   \<and> sorted (t # map fst cs @ [t'])
   \<and> ms t' < ms t + ss_cooldownMs st"
  let ?c = "ms t + ss_cooldownMs st"
  let ?d = "snd (detectSpike d m st t)"
  from h have c: "sd_cooldowns ?d m = Some ?c"
    by (simp add: detectSpike_sets_cooldown)
  from h have "\<forall>tc\<in>set cs. fst tc \<le> t'"
    by (auto simp: sorted_append)
  with h have "\<forall>tc\<in>set cs. ms (fst tc) < ?c"
    by (auto intro: le_ms_less)
  with c have "sd_cooldowns (spike_calls ?d cs) m = Some ?c"
    by (rule spike_calls_keep_cooldown)
  with h have "detectSpike (spike_calls ?d cs) m st' t' = (None, spike_calls ?d cs)"
    by (simp add: detectSpike_in_cooldown)
  with c show "sd_cooldowns ?d m = Some ?c
   \<and> fst (detectSpike (spike_calls ?d cs) m st' t') = None"
    by simp
qed


lemma history_three:
  "sd_priceHistory
     (spike_calls (new_SpikeDetector 30)
        [(1, RecordPrice ''m'' a None), (2, RecordPrice ''m'' b None),
         (3, RecordPrice ''m'' c None)]) ''m''
   = Some [price_point 1 ''m'' a None, price_point 2 ''m'' b None, price_point 3 ''m'' c None]"
  "sd_cooldowns
     (spike_calls (new_SpikeDetector 30)
        [(1, RecordPrice ''m'' a None), (2, RecordPrice ''m'' b None),
         (3, RecordPrice ''m'' c None)]) = Map.empty"
  by (simp_all add: spike_calls_def new_SpikeDetector_def recordPrice_def push_bounded_def
      Let_def price_point_def)

lemma spike_up:
  "fst (detectSpike
     (spike_calls (new_SpikeDetector 30)
        [(1, RecordPrice ''m'' (Fin (1 / 2)) None), (2, RecordPrice ''m'' (Fin (1 / 2)) None),
         (3, RecordPrice ''m'' (Fin (3 / 4)) None)]) ''m''
     \<lparr>ss_spikeThreshold = Fin (1 / 50), ss_cooldownMs = Fin 30000\<rparr> 4)
   = Some \<lparr>se_id = (''m'', 4), se_marketId = ''m'', se_marketQuestion = [],
           se_priceChange = Fin (1 / 4), se_priceChangePercent = Fin (1 / 2), se_direction = Up,
           se_previousPrice = Fin (1 / 2), se_currentPrice = Fin (3 / 4), se_volume = Fin 0,
           se_detectedAt = 4, se_confidence = Fin 1, se_suggestedAction = BuyNo\<rparr>"
  by (simp add: detectSpike_def history_three Let_def price_point_def reduce_sum_def ms_def
      or_default_def)

theorem cooldown_suppresses_repeat_witness:
  "fst (detectSpike
         (spike_calls (new_SpikeDetector 30)
            [(1, RecordPrice ''m'' (Fin (1 / 2)) None), (2, RecordPrice ''m'' (Fin (1 / 2)) None),
             (3, RecordPrice ''m'' (Fin (3 / 4)) None)]) ''m''
         \<lparr>ss_spikeThreshold = Fin (1 / 50), ss_cooldownMs = Fin 30000\<rparr> 4) \<noteq> None
   \<and> fst (detectSpike
           (spike_calls
              (snd (detectSpike
                      (spike_calls (new_SpikeDetector 30)
                         [(1, RecordPrice ''m'' (Fin (1 / 2)) None),
                          (2, RecordPrice ''m'' (Fin (1 / 2)) None),
                          (3, RecordPrice ''m'' (Fin (3 / 4)) None)]) ''m''
                      \<lparr>ss_spikeThreshold = Fin (1 / 50), ss_cooldownMs = Fin 30000\<rparr> 4))
              [(5, RecordPrice ''m'' (Fin 1) None)]) ''m''
           \<lparr>ss_spikeThreshold = Fin (1 / 50), ss_cooldownMs = Fin 30000\<rparr> 6) = None"
proof -
  let ?d = "spike_calls (new_SpikeDetector 30)
              [(1, RecordPrice ''m'' (Fin (1 / 2)) None), (2, RecordPrice ''m'' (Fin (1 / 2)) None),
               (3, RecordPrice ''m'' (Fin (3 / 4)) None)]"
  let ?st = "\<lparr>ss_spikeThreshold = Fin (1 / 50), ss_cooldownMs = Fin 30000\<rparr>"
  have fired: "fst (detectSpike ?d ''m'' ?st 4) \<noteq> None"
    unfolding spike_up by simp
  have clock: "sorted (4 # map fst [(5 :: int, RecordPrice ''m'' (Fin 1) None)] @ [6])"
    by simp
  have early: "ms 6 < ms 4 + ss_cooldownMs ?st"
    by (simp add: ms_def)
  from cooldown_suppresses_repeat
         [of ?d "''m''" ?st 4 "[(5, RecordPrice ''m'' (Fin 1) None)]" 6 ?st]
       fired clock early
  show ?thesis by blast
qed

section \<open>Spike detector: zero prices\<close>

lemma spike_zero_reference:
  "fst (detectSpike
     (spike_calls (new_SpikeDetector 30)
        [(1, RecordPrice ''m'' (Fin 0) None), (2, RecordPrice ''m'' (Fin 0) None),
         (3, RecordPrice ''m'' (Fin (1 / 2)) None)]) ''m''
     \<lparr>ss_spikeThreshold = Fin (1 / 50), ss_cooldownMs = Fin 30000\<rparr> 4)
   = Some \<lparr>se_id = (''m'', 4), se_marketId = ''m'', se_marketQuestion = [],
           se_priceChange = Fin (1 / 2), se_priceChangePercent = PosInf, se_direction = Up,
           se_previousPrice = Fin 0, se_currentPrice = Fin (1 / 2), se_volume = Fin 0,
           se_detectedAt = 4, se_confidence = Fin 1, se_suggestedAction = BuyNo\<rparr>"
  by (simp add: detectSpike_def history_three Let_def price_point_def reduce_sum_def ms_def
      or_default_def Math_min_def)

lemma spike_all_zero:
  "fst (detectSpike
     (spike_calls (new_SpikeDetector 30)
        [(1, RecordPrice ''m'' (Fin 0) None), (2, RecordPrice ''m'' (Fin 0) None),
         (3, RecordPrice ''m'' (Fin 0) None)]) ''m''
     \<lparr>ss_spikeThreshold = Fin (1 / 50), ss_cooldownMs = Fin 30000\<rparr> 4)
   = Some \<lparr>se_id = (''m'', 4), se_marketId = ''m'', se_marketQuestion = [],
           se_priceChange = Fin 0, se_priceChangePercent = NaN, se_direction = Down,
           se_previousPrice = Fin 0, se_currentPrice = Fin 0, se_volume = Fin 0,
           se_detectedAt = 4, se_confidence = NaN, se_suggestedAction = Wait\<rparr>"
  by (simp add: detectSpike_def history_three Let_def price_point_def reduce_sum_def ms_def
      or_default_def Math_min_def)

lemma spike_zero_price:
  "fst (detectSpike
     (spike_calls (new_SpikeDetector 30)
        [(1, RecordPrice ''m'' (Fin (1 / 2)) None), (2, RecordPrice ''m'' (Fin (1 / 2)) None),
         (3, RecordPrice ''m'' (Fin 0) None)]) ''m''
     \<lparr>ss_spikeThreshold = Fin (1 / 50), ss_cooldownMs = Fin 30000\<rparr> 4)
   = Some \<lparr>se_id = (''m'', 4), se_marketId = ''m'', se_marketQuestion = [],
           se_priceChange = Fin (- (1 / 2)), se_priceChangePercent = Fin 1, se_direction = Down,
           se_previousPrice = Fin (1 / 2), se_currentPrice = Fin 0, se_volume = Fin 0,
           se_detectedAt = 4, se_confidence = Fin 1, se_suggestedAction = BuyYes\<rparr>"
  by (simp add: detectSpike_def history_three Let_def price_point_def reduce_sum_def ms_def
      or_default_def Math_min_def)


lemma feedPrice_nonzero: "feedPrice p \<noteq> Fin 0 \<and> feedPrice p \<noteq> NaN"
  by (cases p) (auto simp: feedPrice_def or_default_def)

text \<open>
  C3, as stated, fails. \<open>detectSpike\<close> divides by the average of the preceding recent
  prices without looking at it. After the prices 0, 0, 0.5 it returns an event whose
  \<open>priceChangePercent\<close> is infinite; after 0, 0, 0 one whose \<open>priceChangePercent\<close> and
  \<open>confidence\<close> are NaN; and after 0.5, 0.5, 0, where the current price is zero, it
  returns an event for the move of 100 per cent down.
\<close>

theorem detectSpike_zero_counterexample:
  "fst (detectSpike
     (spike_calls (new_SpikeDetector 30)
        [(1, RecordPrice ''m'' (Fin 0) None), (2, RecordPrice ''m'' (Fin 0) None),
         (3, RecordPrice ''m'' (Fin (1 / 2)) None)]) ''m''
     \<lparr>ss_spikeThreshold = Fin (1 / 50), ss_cooldownMs = Fin 30000\<rparr> 4)
   = Some \<lparr>se_id = (''m'', 4), se_marketId = ''m'', se_marketQuestion = [],
           se_priceChange = Fin (1 / 2), se_priceChangePercent = PosInf, se_direction = Up,
           se_previousPrice = Fin 0, se_currentPrice = Fin (1 / 2), se_volume = Fin 0,
           se_detectedAt = 4, se_confidence = Fin 1, se_suggestedAction = BuyNo\<rparr>
   \<and> fst (detectSpike
     (spike_calls (new_SpikeDetector 30)
        [(1, RecordPrice ''m'' (Fin 0) None), (2, RecordPrice ''m'' (Fin 0) None),
         (3, RecordPrice ''m'' (Fin 0) None)]) ''m''
     \<lparr>ss_spikeThreshold = Fin (1 / 50), ss_cooldownMs = Fin 30000\<rparr> 4)
   = Some \<lparr>se_id = (''m'', 4), se_marketId = ''m'', se_marketQuestion = [],
           se_priceChange = Fin 0, se_priceChangePercent = NaN, se_direction = Down,
           se_previousPrice = Fin 0, se_currentPrice = Fin 0, se_volume = Fin 0,
           se_detectedAt = 4, se_confidence = NaN, se_suggestedAction = Wait\<rparr>
   \<and> fst (detectSpike
     (spike_calls (new_SpikeDetector 30)
        [(1, RecordPrice ''m'' (Fin (1 / 2)) None), (2, RecordPrice ''m'' (Fin (1 / 2)) None),
         (3, RecordPrice ''m'' (Fin 0) None)]) ''m''
     \<lparr>ss_spikeThreshold = Fin (1 / 50), ss_cooldownMs = Fin 30000\<rparr> 4)
   = Some \<lparr>se_id = (''m'', 4), se_marketId = ''m'', se_marketQuestion = [],
           se_priceChange = Fin (- (1 / 2)), se_priceChangePercent = Fin 1, se_direction = Down,
           se_previousPrice = Fin (1 / 2), se_currentPrice = Fin 0, se_volume = Fin 0,
           se_detectedAt = 4, se_confidence = Fin 1, se_suggestedAction = BuyYes\<rparr>"
  by (intro conjI spike_zero_reference spike_all_zero spike_zero_price)

lemma detectSpike_event:
  assumes "sd_priceHistory d m = Some h" and "fst (detectSpike d m st now) = Some e"
  shows "3 \<le> length h"
    and "se_previousPrice e = avgRecentPrice h"
    and "se_currentPrice e = pp_price (last h)"
    and "se_priceChange e = pp_price (last h) - avgRecentPrice h"
    and "se_priceChangePercent e
           = Math_abs ((pp_price (last h) - avgRecentPrice h) / avgRecentPrice h)"
    and "\<not> se_priceChangePercent e < ss_spikeThreshold st"
    and "se_confidence e
           = Math_min (se_priceChangePercent e / (ss_spikeThreshold st * Fin 2)) (Fin 1)"
  using assms(1) assms(2) [symmetric]
  by (simp_all add: detectSpike_def Let_def recent_points_def avgRecentPrice_def
      split: if_splits)

lemma detectSpike_outside_cooldown:
  assumes "sd_priceHistory d m = Some h" and "3 \<le> length h"
    and "\<not> ms now < or_default_opt (sd_cooldowns d m) (Fin 0)"
  shows "(fst (detectSpike d m st now) = None)
           = (Math_abs ((pp_price (last h) - avgRecentPrice h) / avgRecentPrice h)
              < ss_spikeThreshold st)"
  using assms by (simp add: detectSpike_def Let_def recent_points_def avgRecentPrice_def)

lemma change_not_NaN:
  assumes "is_fin c" and "is_fin r" and "r \<noteq> Fin 0"
  shows "Math_abs ((c - r) / r) \<noteq> NaN"
  using assms by (cases c; cases r) simp_all

lemma change_zero_price:
  assumes "is_fin r" and "r \<noteq> Fin 0"
  shows "Math_abs ((Fin 0 - r) / r) = Fin 1"
  using assms by (cases r) simp_all

lemma confidence_range:
  assumes "is_fin c" and "is_fin r" and "r \<noteq> Fin 0"
    and "Fin 0 < th" and "th \<le> Fin 1"
    and "\<not> Math_abs ((c - r) / r) < th"
  shows "Fin 0 < Math_min (Math_abs ((c - r) / r) / (th * Fin 2)) (Fin 1)
         \<and> Math_min (Math_abs ((c - r) / r) / (th * Fin 2)) (Fin 1) \<le> Fin 1"
proof -
  obtain a b where c: "c = Fin a" and r: "r = Fin b" and b: "b \<noteq> 0"
    using assms(1-3) by (auto simp: is_fin_iff)
  obtain t where th: "th = Fin t" and t: "0 < t"
    using assms(4,5) by (cases th) (simp_all add: less_eq_jsnum_def)
  define q where "q = \<bar>(a - b) / b\<bar>"
  have pcp: "Math_abs ((c - r) / r) = Fin q"
    using b by (simp add: c r q_def)
  from assms(6) have "t \<le> q"
    unfolding pcp th by simp
  with t have "0 < q"
    by linarith
  then have pos: "0 < q / (t * 2)"
    by (rule divide_pos_pos) (use t in simp)
  have "Math_min (Math_abs ((c - r) / r) / (th * Fin 2)) (Fin 1) = Fin (min (q / (t * 2)) 1)"
    using t unfolding pcp th by simp
  with pos show ?thesis
    by simp
qed

text \<open>
  C3, amended. \<open>detectSpike\<close> has no guard against a zero divisor and does not clamp
  prices. On the numbers as it computes them, with the reference price the average of the
  recent points preceding the newest: every event it returns carries that reference price,
  the change \<open>current - reference\<close>, the \<open>priceChangePercent\<close>
  \<open>Math_abs ((current - reference) / reference)\<close>, which is not below the threshold, and
  the confidence \<open>Math_min (priceChangePercent / (threshold * 2)) 1\<close>. With at least three
  points and outside the cooldown, it returns none exactly when the computed
  \<open>priceChangePercent\<close> is below the threshold, a comparison that fails for NaN. When the
  current price is finite and the computed reference is finite and not zero, the
  \<open>priceChangePercent\<close> is not NaN and, for a threshold in \<open>(0, 1]\<close>, the confidence of a
  returned event lies in \<open>(0, 1]\<close>; a current price of zero is then a move of exactly 100
  per cent, reported like any other move.
\<close>

theorem detectSpike_computed_change:
  "(sd_priceHistory d m = Some h \<and> fst (detectSpike d m st now) = Some e \<longrightarrow>
      3 \<le> length h
      \<and> se_previousPrice e = avgRecentPrice h
      \<and> se_currentPrice e = pp_price (last h)
      \<and> se_priceChange e = pp_price (last h) - avgRecentPrice h
      \<and> se_priceChangePercent e
          = Math_abs ((pp_price (last h) - avgRecentPrice h) / avgRecentPrice h)
      \<and> \<not> se_priceChangePercent e < ss_spikeThreshold st
      \<and> se_confidence e
          = Math_min (se_priceChangePercent e / (ss_spikeThreshold st * Fin 2)) (Fin 1))
   \<and> (sd_priceHistory d m = Some h \<and> 3 \<le> length h
        \<and> \<not> ms now < or_default_opt (sd_cooldowns d m) (Fin 0) \<longrightarrow>
        (fst (detectSpike d m st now) = None)
          = (Math_abs ((pp_price (last h) - avgRecentPrice h) / avgRecentPrice h)
             < ss_spikeThreshold st))
   \<and> (is_fin (pp_price (last h)) \<and> is_fin (avgRecentPrice h) \<and> avgRecentPrice h \<noteq> Fin 0 \<longrightarrow>
        Math_abs ((pp_price (last h) - avgRecentPrice h) / avgRecentPrice h) \<noteq> NaN)
   \<and> (pp_price (last h) = Fin 0 \<and> is_fin (avgRecentPrice h) \<and> avgRecentPrice h \<noteq> Fin 0 \<longrightarrow>
        Math_abs ((pp_price (last h) - avgRecentPrice h) / avgRecentPrice h) = Fin 1)
   \<and> (sd_priceHistory d m = Some h \<and> fst (detectSpike d m st now) = Some e
        \<and> is_fin (pp_price (last h)) \<and> is_fin (avgRecentPrice h) \<and> avgRecentPrice h \<noteq> Fin 0
        \<and> Fin 0 < ss_spikeThreshold st \<and> ss_spikeThreshold st \<le> Fin 1 \<longrightarrow>
        Fin 0 < se_confidence e \<and> se_confidence e \<le> Fin 1)"
proof (intro conjI)
  show "sd_priceHistory d m = Some h \<and> fst (detectSpike d m st now) = Some e \<longrightarrow>
      3 \<le> length h
      \<and> se_previousPrice e = avgRecentPrice h
      \<and> se_currentPrice e = pp_price (last h)
      \<and> se_priceChange e = pp_price (last h) - avgRecentPrice h
      \<and> se_priceChangePercent e
          = Math_abs ((pp_price (last h) - avgRecentPrice h) / avgRecentPrice h)
      \<and> \<not> se_priceChangePercent e < ss_spikeThreshold st
      \<and> se_confidence e
          = Math_min (se_priceChangePercent e / (ss_spikeThreshold st * Fin 2)) (Fin 1)"
    using detectSpike_event [of d m h st now e] by blast
  show "sd_priceHistory d m = Some h \<and> 3 \<le> length h
        \<and> \<not> ms now < or_default_opt (sd_cooldowns d m) (Fin 0) \<longrightarrow>
        (fst (detectSpike d m st now) = None)
          = (Math_abs ((pp_price (last h) - avgRecentPrice h) / avgRecentPrice h)
             < ss_spikeThreshold st)"
    using detectSpike_outside_cooldown [of d m h now st] by blast
  show "is_fin (pp_price (last h)) \<and> is_fin (avgRecentPrice h) \<and> avgRecentPrice h \<noteq> Fin 0 \<longrightarrow>
        Math_abs ((pp_price (last h) - avgRecentPrice h) / avgRecentPrice h) \<noteq> NaN"
    using change_not_NaN [of "pp_price (last h)" "avgRecentPrice h"] by blast
  show "pp_price (last h) = Fin 0 \<and> is_fin (avgRecentPrice h) \<and> avgRecentPrice h \<noteq> Fin 0 \<longrightarrow>
        Math_abs ((pp_price (last h) - avgRecentPrice h) / avgRecentPrice h) = Fin 1"
    using change_zero_price [of "avgRecentPrice h"] by auto
  show "sd_priceHistory d m = Some h \<and> fst (detectSpike d m st now) = Some e
        \<and> is_fin (pp_price (last h)) \<and> is_fin (avgRecentPrice h) \<and> avgRecentPrice h \<noteq> Fin 0
        \<and> Fin 0 < ss_spikeThreshold st \<and> ss_spikeThreshold st \<le> Fin 1 \<longrightarrow>
        Fin 0 < se_confidence e \<and> se_confidence e \<le> Fin 1"
  proof
    assume H: "sd_priceHistory d m = Some h \<and> fst (detectSpike d m st now) = Some e
        \<and> is_fin (pp_price (last h)) \<and> is_fin (avgRecentPrice h) \<and> avgRecentPrice h \<noteq> Fin 0
        \<and> Fin 0 < ss_spikeThreshold st \<and> ss_spikeThreshold st \<le> Fin 1"
    then have hist: "sd_priceHistory d m = Some h"
      and ev: "fst (detectSpike d m st now) = Some e"
      by simp_all
    note E = detectSpike_event [OF hist ev]
    from E(6) have "\<not> Math_abs ((pp_price (last h) - avgRecentPrice h) / avgRecentPrice h)
                      < ss_spikeThreshold st"
      unfolding E(5) .
    with H have "Fin 0 < Math_min (Math_abs ((pp_price (last h) - avgRecentPrice h)
                                              / avgRecentPrice h)
                                     / (ss_spikeThreshold st * Fin 2)) (Fin 1)
         \<and> Math_min (Math_abs ((pp_price (last h) - avgRecentPrice h) / avgRecentPrice h)
                       / (ss_spikeThreshold st * Fin 2)) (Fin 1) \<le> Fin 1"
      by (intro confidence_range) simp_all
    then show "Fin 0 < se_confidence e \<and> se_confidence e \<le> Fin 1"
      unfolding E(7) E(5) .
  qed
qed

theorem detectSpike_computed_change_witness:
  "avgRecentPrice
     [price_point 1 ''m'' (Fin (1 / 2)) None, price_point 2 ''m'' (Fin (1 / 2)) None,
      price_point 3 ''m'' (Fin 0) None] = Fin (1 / 2)
   \<and> fst (detectSpike
          (spike_calls (new_SpikeDetector 30)
             [(1, RecordPrice ''m'' (Fin (1 / 2)) None), (2, RecordPrice ''m'' (Fin (1 / 2)) None),
              (3, RecordPrice ''m'' (Fin 0) None)]) ''m''
          \<lparr>ss_spikeThreshold = Fin (1 / 50), ss_cooldownMs = Fin 30000\<rparr> 4) \<noteq> None
   \<and> se_previousPrice
       \<lparr>se_id = (''m'', 4), se_marketId = ''m'', se_marketQuestion = [],
        se_priceChange = Fin (- (1 / 2)), se_priceChangePercent = Fin 1,
        se_direction = Down, se_previousPrice = Fin (1 / 2), se_currentPrice = Fin 0,
        se_volume = Fin 0, se_detectedAt = 4, se_confidence = Fin 1,
        se_suggestedAction = BuyYes\<rparr> = Fin (1 / 2)
   \<and> Fin 0 < se_confidence
       \<lparr>se_id = (''m'', 4), se_marketId = ''m'', se_marketQuestion = [],
        se_priceChange = Fin (- (1 / 2)), se_priceChangePercent = Fin 1,
        se_direction = Down, se_previousPrice = Fin (1 / 2), se_currentPrice = Fin 0,
        se_volume = Fin 0, se_detectedAt = 4, se_confidence = Fin 1,
        se_suggestedAction = BuyYes\<rparr>
   \<and> Math_abs ((Fin 0 - Fin (1 / 2)) / Fin (1 / 2)) = Fin 1
   \<and> Math_abs ((Fin 0 - Fin (1 / 2)) / Fin (1 / 2)) \<noteq> NaN"
proof -
  let ?h = "[price_point 1 ''m'' (Fin (1 / 2)) None, price_point 2 ''m'' (Fin (1 / 2)) None,
             price_point 3 ''m'' (Fin 0) None]"
  let ?d = "spike_calls (new_SpikeDetector 30)
              [(1, RecordPrice ''m'' (Fin (1 / 2)) None), (2, RecordPrice ''m'' (Fin (1 / 2)) None),
               (3, RecordPrice ''m'' (Fin 0) None)]"
  let ?st = "\<lparr>ss_spikeThreshold = Fin (1 / 50), ss_cooldownMs = Fin 30000\<rparr>"
  let ?e = "\<lparr>se_id = (''m'', 4), se_marketId = ''m'', se_marketQuestion = [],
             se_priceChange = Fin (- (1 / 2)), se_priceChangePercent = Fin 1,
             se_direction = Down, se_previousPrice = Fin (1 / 2), se_currentPrice = Fin 0,
             se_volume = Fin 0, se_detectedAt = 4, se_confidence = Fin 1,
             se_suggestedAction = BuyYes\<rparr>"
  have r: "avgRecentPrice ?h = Fin (1 / 2)"
    by (simp add: avgRecentPrice_def recent_points_def price_point_def reduce_sum_def)
  have cur: "pp_price (last ?h) = Fin 0"
    by (simp add: price_point_def)
  have fr: "is_fin (avgRecentPrice ?h)" and nz: "avgRecentPrice ?h \<noteq> Fin 0"
    unfolding r by simp_all
  have fc: "is_fin (pp_price (last ?h))"
    unfolding cur by simp
  have len: "3 \<le> length ?h"
    by simp
  have cool: "\<not> ms 4 < or_default_opt (sd_cooldowns ?d ''m'') (Fin 0)"
    unfolding history_three(2) by (simp add: ms_def)
  have thr: "Fin 0 < ss_spikeThreshold ?st" "ss_spikeThreshold ?st \<le> Fin 1"
    by simp_all
  note T = detectSpike_computed_change
             [where d = ?d and m = "''m''" and h = ?h and st = ?st and now = 4 and e = ?e]
  have ev: "sd_priceHistory ?d ''m'' = Some ?h \<and> fst (detectSpike ?d ''m'' ?st 4) = Some ?e"
    by (intro conjI history_three(1) spike_zero_price)
  with T have prev: "se_previousPrice ?e = avgRecentPrice ?h"
    by blast
  have "sd_priceHistory ?d ''m'' = Some ?h \<and> 3 \<le> length ?h
        \<and> \<not> ms 4 < or_default_opt (sd_cooldowns ?d ''m'') (Fin 0)"
    by (intro conjI history_three(1) len cool)
  with T have "(fst (detectSpike ?d ''m'' ?st 4) = None)
                 = (Math_abs ((pp_price (last ?h) - avgRecentPrice ?h) / avgRecentPrice ?h)
                    < ss_spikeThreshold ?st)"
    by blast
  then have fires: "fst (detectSpike ?d ''m'' ?st 4) \<noteq> None"
    unfolding r cur by simp
  from T fc fr nz
  have "Math_abs ((pp_price (last ?h) - avgRecentPrice ?h) / avgRecentPrice ?h) \<noteq> NaN"
    by blast
  then have nn: "Math_abs ((Fin 0 - Fin (1 / 2)) / Fin (1 / 2)) \<noteq> NaN"
    unfolding r cur .
  from T cur fr nz
  have "Math_abs ((pp_price (last ?h) - avgRecentPrice ?h) / avgRecentPrice ?h) = Fin 1"
    by blast
  then have one: "Math_abs ((Fin 0 - Fin (1 / 2)) / Fin (1 / 2)) = Fin 1"
    unfolding r cur .
  have "sd_priceHistory ?d ''m'' = Some ?h \<and> fst (detectSpike ?d ''m'' ?st 4) = Some ?e
        \<and> is_fin (pp_price (last ?h)) \<and> is_fin (avgRecentPrice ?h)
        \<and> avgRecentPrice ?h \<noteq> Fin 0
        \<and> Fin 0 < ss_spikeThreshold ?st \<and> ss_spikeThreshold ?st \<le> Fin 1"
    by (intro conjI history_three(1) spike_zero_price fc fr nz thr)
  with T have conf: "Fin 0 < se_confidence ?e"
    by blast
  from prev have prev': "se_previousPrice ?e = Fin (1 / 2)"
    unfolding r .
  from r fires prev' conf one nn show ?thesis
    by blast
qed

section \<open>Arbitrage scanner: the binary scan\<close>

lemma binaryOpportunity_flagged:
  "binaryOpportunity now market =
     (if flagged market then
        [\<lparr>ao_id = (mk_id market, now), ao_type = Binary,
          ao_market1 = \<lparr>leg_id = mk_id market, leg_question = mk_question market,
                        leg_price = at_index (mk_outcomePrices market) 0,
                        leg_platform = ''polymarket''\<rparr>,
          ao_market2 = Some \<lparr>leg_id = mk_id market,
                             leg_question = mk_question market @ '' (NO)'',
                             leg_price = at_index (mk_outcomePrices market) 1,
                             leg_platform = ''polymarket''\<rparr>,
          ao_totalCost = netCost market, ao_guaranteedPayout = Fin 1,
          ao_profit = Fin 1 - netCost market,
          ao_profitPercent = ((Fin 1 - netCost market) / netCost market) * Fin 100,
          ao_detectedAt = now, ao_status = Active\<rparr>]
      else [])"
  by (simp add: binaryOpportunity_def flagged_def netCost_def Let_def)

lemma scan_new_opportunities:
  "concat (map (binaryOpportunity now) markets)
     = map (\<lambda>market.
               \<lparr>ao_id = (mk_id market, now), ao_type = Binary,
                ao_market1 = \<lparr>leg_id = mk_id market, leg_question = mk_question market,
                              leg_price = at_index (mk_outcomePrices market) 0,
                              leg_platform = ''polymarket''\<rparr>,
                ao_market2 = Some \<lparr>leg_id = mk_id market,
                                   leg_question = mk_question market @ '' (NO)'',
                                   leg_price = at_index (mk_outcomePrices market) 1,
                                   leg_platform = ''polymarket''\<rparr>,
                ao_totalCost = netCost market, ao_guaranteedPayout = Fin 1,
                ao_profit = Fin 1 - netCost market,
                ao_profitPercent = ((Fin 1 - netCost market) / netCost market) * Fin 100,
                ao_detectedAt = now, ao_status = Active\<rparr>)
           (filter flagged markets)"
  by (induction markets) (simp_all add: binaryOpportunity_flagged)

lemma scan_new_detectedAt:
  "opp \<in> set (concat (map (binaryOpportunity now) markets)) \<Longrightarrow> ao_detectedAt opp = now"
  by (auto simp: binaryOpportunity_flagged split: if_splits)

lemma profit_positive: "c < Fin 1 \<Longrightarrow> Fin 0 < Fin 1 - c"
  by (cases c) (simp_all add: minus_jsnum_def)

lemma scan_new_fields:
  assumes "opp \<in> set (concat (map (binaryOpportunity now) markets))"
  shows "ao_totalCost opp < Fin 1"
    and "ao_profit opp = Fin 1 - ao_totalCost opp"
    and "Fin 0 < ao_profit opp"
    and "ao_profitPercent opp = (ao_profit opp / ao_totalCost opp) * Fin 100"
    and "ao_status opp = Active"
proof -
  from assms obtain market where m: "flagged market"
    and opp: "binaryOpportunity now market = [opp]"
    by (auto simp: binaryOpportunity_flagged split: if_splits)
  from opp m have f: "ao_totalCost opp = netCost market"
    "ao_profit opp = Fin 1 - netCost market"
    "ao_profitPercent opp = ((Fin 1 - netCost market) / netCost market) * Fin 100"
    "ao_status opp = Active"
    by (auto simp: binaryOpportunity_flagged)
  from m have c: "netCost market < Fin 1"
    by (simp add: flagged_def)
  show "ao_totalCost opp < Fin 1"
    and "ao_profit opp = Fin 1 - ao_totalCost opp"
    and "Fin 0 < ao_profit opp"
    and "ao_profitPercent opp = (ao_profit opp / ao_totalCost opp) * Fin 100"
    and "ao_status opp = Active"
    using c profit_positive [OF c] by (simp_all add: f)
qed

lemma newest_first_merge:
  assumes "newest_first old" and "\<forall>opp\<in>set old. ao_detectedAt opp \<le> now"
    and "\<forall>opp\<in>set new. ao_detectedAt opp = now"
  shows "newest_first (new @ filter P old)"
proof -
  have "sorted_wrt (\<lambda>a b. ao_detectedAt b \<le> ao_detectedAt a) new"
    using assms(3) by (induction new) auto
  moreover have "sorted_wrt (\<lambda>a b. ao_detectedAt b \<le> ao_detectedAt a) (filter P old)"
    using assms(1) unfolding newest_first_def by (rule sorted_wrt_filter)
  ultimately show ?thesis
    using assms(2,3) by (auto simp: newest_first_def sorted_wrt_append)
qed

lemma newest_first_cut:
  assumes "newest_first xs"
  shows "newest_first (take k xs)"
    and "\<forall>kept\<in>set (take k xs). \<forall>dropped\<in>set (drop k xs).
           ao_detectedAt dropped \<le> ao_detectedAt kept"
proof -
  have "sorted_wrt (\<lambda>a b. ao_detectedAt b \<le> ao_detectedAt a) (take k xs @ drop k xs)"
    using assms by (simp add: newest_first_def)
  then show "newest_first (take k xs)"
    and "\<forall>kept\<in>set (take k xs). \<forall>dropped\<in>set (drop k xs).
           ao_detectedAt dropped \<le> ao_detectedAt kept"
    unfolding sorted_wrt_append newest_first_def by auto
qed

text \<open>
  C8. \<open>scanBinaryArbitrage\<close> returns one opportunity for each market that has two outcomes
  and a net cost \<open>priceYes + priceNo + 0.02\<close>, as the scanner computes it, below 1, in the
  order of the markets, and none for any other market. The opportunity of a flagged market
  carries the two legs of the market (the second with the question marked \<open>(NO)\<close>), the net
  cost as its total cost, the payout 1, the profit \<open>1 - netCost\<close>, which is positive, the
  profit per cent \<open>(profit / netCost) * 100\<close>, the time of the scan and the status active.
  The registry left by the scan is the list of the new opportunities followed by the
  earlier ones detected less than 300000 ms before, cut to its first 50 entries. When the
  registry was ordered from newest to oldest and no entry is dated after the scan, the
  registry left is ordered the same way, and no entry that the cut dropped is more recent
  than one it kept. The prices 0.45 and 0.50 are flagged with the net cost 0.97 and the
  profit 0.03; the prices 0.50 and 0.52 are not flagged.
\<close>

theorem scanBinaryArbitrage_spec:
  "fst (scanBinaryArbitrage registry markets now)
     = map (\<lambda>market.
               \<lparr>ao_id = (mk_id market, now), ao_type = Binary,
                ao_market1 = \<lparr>leg_id = mk_id market, leg_question = mk_question market,
                              leg_price = at_index (mk_outcomePrices market) 0,
                              leg_platform = ''polymarket''\<rparr>,
                ao_market2 = Some \<lparr>leg_id = mk_id market,
                                   leg_question = mk_question market @ '' (NO)'',
                                   leg_price = at_index (mk_outcomePrices market) 1,
                                   leg_platform = ''polymarket''\<rparr>,
                ao_totalCost = netCost market, ao_guaranteedPayout = Fin 1,
                ao_profit = Fin 1 - netCost market,
                ao_profitPercent = ((Fin 1 - netCost market) / netCost market) * Fin 100,
                ao_detectedAt = now, ao_status = Active\<rparr>)
           (filter flagged markets)
   \<and> flagged market
       = (length (mk_outcomes market) = 2
          \<and> at_index (mk_outcomePrices market) 0 + at_index (mk_outcomePrices market) 1
                + Fin 0.02 < Fin 1)
   \<and> (\<forall>opp\<in>set (fst (scanBinaryArbitrage registry markets now)).
        ao_totalCost opp < Fin 1
        \<and> ao_profit opp = Fin 1 - ao_totalCost opp
        \<and> Fin 0 < ao_profit opp
        \<and> ao_profitPercent opp = (ao_profit opp / ao_totalCost opp) * Fin 100
        \<and> ao_detectedAt opp = now \<and> ao_status opp = Active)
   \<and> snd (scanBinaryArbitrage registry markets now)
       = take 50 (fst (scanBinaryArbitrage registry markets now)
                  @ filter (\<lambda>opp. now - ao_detectedAt opp < 300000) registry)
   \<and> (newest_first registry \<and> (\<forall>opp\<in>set registry. ao_detectedAt opp \<le> now) \<longrightarrow>
        newest_first (snd (scanBinaryArbitrage registry markets now))
        \<and> (\<forall>opp\<in>set (snd (scanBinaryArbitrage registry markets now)). ao_detectedAt opp \<le> now)
        \<and> (\<forall>kept\<in>set (snd (scanBinaryArbitrage registry markets now)).
             \<forall>dropped\<in>set (drop 50 (fst (scanBinaryArbitrage registry markets now)
                                @ filter (\<lambda>opp. now - ao_detectedAt opp < 300000) registry)).
               ao_detectedAt dropped \<le> ao_detectedAt kept))
   \<and> map (\<lambda>opp. (ao_totalCost opp, ao_profit opp))
         (fst (scanBinaryArbitrage registry
                 [\<lparr>mk_id = ''a'', mk_question = ''A?'', mk_outcomes = [''Yes'', ''No''],
                   mk_outcomePrices = [Fin 0.45, Fin 0.50], mk_volume = Fin 0\<rparr>] now))
       = [(Fin 0.97, Fin 0.03)]
   \<and> fst (scanBinaryArbitrage registry
              [\<lparr>mk_id = ''b'', mk_question = ''B?'', mk_outcomes = [''Yes'', ''No''],
                mk_outcomePrices = [Fin 0.50, Fin 0.52], mk_volume = Fin 0\<rparr>] now) = []"
proof (intro conjI impI)
  show "fst (scanBinaryArbitrage registry markets now)
     = map (\<lambda>market.
               \<lparr>ao_id = (mk_id market, now), ao_type = Binary,
                ao_market1 = \<lparr>leg_id = mk_id market, leg_question = mk_question market,
                              leg_price = at_index (mk_outcomePrices market) 0,
                              leg_platform = ''polymarket''\<rparr>,
                ao_market2 = Some \<lparr>leg_id = mk_id market,
                                   leg_question = mk_question market @ '' (NO)'',
                                   leg_price = at_index (mk_outcomePrices market) 1,
                                   leg_platform = ''polymarket''\<rparr>,
                ao_totalCost = netCost market, ao_guaranteedPayout = Fin 1,
                ao_profit = Fin 1 - netCost market,
                ao_profitPercent = ((Fin 1 - netCost market) / netCost market) * Fin 100,
                ao_detectedAt = now, ao_status = Active\<rparr>)
           (filter flagged markets)"
    by (simp add: scanBinaryArbitrage_def Let_def scan_new_opportunities)
next
  show "flagged market
       = (length (mk_outcomes market) = 2
          \<and> at_index (mk_outcomePrices market) 0 + at_index (mk_outcomePrices market) 1
                + Fin 0.02 < Fin 1)"
    by (simp add: flagged_def netCost_def TRANSACTION_FEE_def)
next
  show "\<forall>opp\<in>set (fst (scanBinaryArbitrage registry markets now)).
        ao_totalCost opp < Fin 1
        \<and> ao_profit opp = Fin 1 - ao_totalCost opp
        \<and> Fin 0 < ao_profit opp
        \<and> ao_profitPercent opp = (ao_profit opp / ao_totalCost opp) * Fin 100
        \<and> ao_detectedAt opp = now \<and> ao_status opp = Active"
    using scan_new_fields [of _ now markets] scan_new_detectedAt [of _ now markets]
    by (simp add: scanBinaryArbitrage_def Let_def)
next
  show "snd (scanBinaryArbitrage registry markets now)
       = take 50 (fst (scanBinaryArbitrage registry markets now)
                  @ filter (\<lambda>opp. now - ao_detectedAt opp < 300000) registry)"
    by (simp add: scanBinaryArbitrage_def Let_def)
next
  assume h: "newest_first registry \<and> (\<forall>opp\<in>set registry. ao_detectedAt opp \<le> now)"
  let ?new = "concat (map (binaryOpportunity now) markets)"
  let ?all = "?new @ filter (\<lambda>opp. now - ao_detectedAt opp < 300000) registry"
  have new: "\<forall>opp\<in>set ?new. ao_detectedAt opp = now"
    using scan_new_detectedAt by blast
  have nf: "newest_first ?all"
    using h new by (intro newest_first_merge) auto
  have snd_eq: "snd (scanBinaryArbitrage registry markets now) = take 50 ?all"
    and fst_eq: "fst (scanBinaryArbitrage registry markets now) = ?new"
    by (simp_all add: scanBinaryArbitrage_def Let_def)
  show "newest_first (snd (scanBinaryArbitrage registry markets now))"
    unfolding snd_eq by (rule newest_first_cut(1) [OF nf])
  show "\<forall>opp\<in>set (snd (scanBinaryArbitrage registry markets now)). ao_detectedAt opp \<le> now"
    unfolding snd_eq using h new by (auto dest!: in_set_takeD)
  show "\<forall>kept\<in>set (snd (scanBinaryArbitrage registry markets now)).
             \<forall>dropped\<in>set (drop 50 (fst (scanBinaryArbitrage registry markets now)
                                @ filter (\<lambda>opp. now - ao_detectedAt opp < 300000) registry)).
               ao_detectedAt dropped \<le> ao_detectedAt kept"
    unfolding snd_eq fst_eq by (rule newest_first_cut(2) [OF nf])
next
  show "map (\<lambda>opp. (ao_totalCost opp, ao_profit opp))
         (fst (scanBinaryArbitrage registry
                 [\<lparr>mk_id = ''a'', mk_question = ''A?'', mk_outcomes = [''Yes'', ''No''],
                   mk_outcomePrices = [Fin 0.45, Fin 0.50], mk_volume = Fin 0\<rparr>] now))
       = [(Fin 0.97, Fin 0.03)]"
    by (simp add: scanBinaryArbitrage_def Let_def binaryOpportunity_flagged flagged_def
        netCost_def at_index_def TRANSACTION_FEE_def)
next
  show "fst (scanBinaryArbitrage registry
              [\<lparr>mk_id = ''b'', mk_question = ''B?'', mk_outcomes = [''Yes'', ''No''],
                mk_outcomePrices = [Fin 0.50, Fin 0.52], mk_volume = Fin 0\<rparr>] now) = []"
    by (simp add: scanBinaryArbitrage_def Let_def binaryOpportunity_flagged flagged_def
        netCost_def at_index_def TRANSACTION_FEE_def)
qed

theorem scanBinaryArbitrage_spec_witness:
  "map ao_detectedAt
     (snd (scanBinaryArbitrage
             (snd (scanBinaryArbitrage
                     (snd (scanBinaryArbitrage []
                             [\<lparr>mk_id = ''a'', mk_question = ''A?'',
                               mk_outcomes = [''Yes'', ''No''],
                               mk_outcomePrices = [Fin (1 / 4), Fin (1 / 2)],
                               mk_volume = Fin 0\<rparr>] 0))
                     [\<lparr>mk_id = ''a'', mk_question = ''A?'', mk_outcomes = [''Yes'', ''No''],
                       mk_outcomePrices = [Fin (1 / 4), Fin (1 / 2)], mk_volume = Fin 0\<rparr>]
                     200000))
             [\<lparr>mk_id = ''a'', mk_question = ''A?'', mk_outcomes = [''Yes'', ''No''],
               mk_outcomePrices = [Fin (1 / 4), Fin (1 / 2)], mk_volume = Fin 0\<rparr>]
             400000))
   = [400000, 200000]
   \<and> map (\<lambda>opp. (ao_totalCost opp, ao_profit opp, ao_profitPercent opp))
       (fst (scanBinaryArbitrage []
               [\<lparr>mk_id = ''a'', mk_question = ''A?'', mk_outcomes = [''Yes'', ''No''],
                 mk_outcomePrices = [Fin (1 / 4), Fin (1 / 2)], mk_volume = Fin 0\<rparr>,
                \<lparr>mk_id = ''c'', mk_question = ''C?'', mk_outcomes = [''Yes'', ''No''],
                 mk_outcomePrices = [Fin (1 / 2), Fin (1 / 2)], mk_volume = Fin 0\<rparr>] 0))
     = [(Fin (77 / 100), Fin (23 / 100), Fin (2300 / 77))]"
proof -
  let ?m = "\<lparr>mk_id = ''a'', mk_question = ''A?'', mk_outcomes = [''Yes'', ''No''],
             mk_outcomePrices = [Fin (1 / 4), Fin (1 / 2)], mk_volume = Fin 0\<rparr>"
  let ?c = "\<lparr>mk_id = ''c'', mk_question = ''C?'', mk_outcomes = [''Yes'', ''No''],
             mk_outcomePrices = [Fin (1 / 2), Fin (1 / 2)], mk_volume = Fin 0\<rparr>"
  let ?r1 = "snd (scanBinaryArbitrage [] [?m] 0)"
  let ?r2 = "snd (scanBinaryArbitrage ?r1 [?m] 200000)"
  have f: "flagged ?m"
    by (simp add: flagged_def netCost_def at_index_def TRANSACTION_FEE_def)
  have nf: "\<not> flagged ?c"
    by (simp add: flagged_def netCost_def at_index_def TRANSACTION_FEE_def)
  have c: "netCost ?m = Fin (77 / 100)"
    by (simp add: netCost_def at_index_def TRANSACTION_FEE_def)
  have d1: "map ao_detectedAt ?r1 = [0]"
    by (simp add: scanBinaryArbitrage_def Let_def binaryOpportunity_flagged f)
  have d2: "map ao_detectedAt ?r2 = [200000, 0]"
    using d1
    by (simp add: scanBinaryArbitrage_def Let_def binaryOpportunity_flagged f filter_map
        comp_def take_map [symmetric])
  have sorted2: "newest_first ?r2 \<and> (\<forall>opp\<in>set ?r2. ao_detectedAt opp \<le> 400000)"
  proof -
    have "sorted_wrt (\<lambda>a b. b \<le> a) (map ao_detectedAt ?r2)"
      unfolding d2 by simp
    moreover have "\<forall>t\<in>set (map ao_detectedAt ?r2). t \<le> 400000"
      unfolding d2 by simp
    ultimately show ?thesis
      by (simp add: newest_first_def sorted_wrt_map)
  qed
  note T = scanBinaryArbitrage_spec [where registry = ?r2 and markets = "[?m]" and now = 400000]
  from T sorted2 have "newest_first (snd (scanBinaryArbitrage ?r2 [?m] 400000))"
    by blast
  moreover from T have "snd (scanBinaryArbitrage ?r2 [?m] 400000)
       = take 50 (fst (scanBinaryArbitrage ?r2 [?m] 400000)
                  @ filter (\<lambda>opp. 400000 - ao_detectedAt opp < 300000) ?r2)"
    by blast
  then have "map ao_detectedAt (snd (scanBinaryArbitrage ?r2 [?m] 400000))
       = take 50 (map ao_detectedAt (fst (scanBinaryArbitrage ?r2 [?m] 400000))
                  @ filter (\<lambda>t. 400000 - t < 300000) (map ao_detectedAt ?r2))"
    by (simp add: take_map filter_map comp_def)
  then have first: "map ao_detectedAt (snd (scanBinaryArbitrage ?r2 [?m] 400000))
                      = [400000, 200000]"
    unfolding d2 by (simp add: scanBinaryArbitrage_def Let_def binaryOpportunity_flagged f)
  note U = scanBinaryArbitrage_spec [where registry = "[]" and markets = "[?m, ?c]" and now = 0]
  from U have new: "fst (scanBinaryArbitrage [] [?m, ?c] 0)
     = map (\<lambda>market.
               \<lparr>ao_id = (mk_id market, 0), ao_type = Binary,
                ao_market1 = \<lparr>leg_id = mk_id market, leg_question = mk_question market,
                              leg_price = at_index (mk_outcomePrices market) 0,
                              leg_platform = ''polymarket''\<rparr>,
                ao_market2 = Some \<lparr>leg_id = mk_id market,
                                   leg_question = mk_question market @ '' (NO)'',
                                   leg_price = at_index (mk_outcomePrices market) 1,
                                   leg_platform = ''polymarket''\<rparr>,
                ao_totalCost = netCost market, ao_guaranteedPayout = Fin 1,
                ao_profit = Fin 1 - netCost market,
                ao_profitPercent = ((Fin 1 - netCost market) / netCost market) * Fin 100,
                ao_detectedAt = 0, ao_status = Active\<rparr>)
           (filter flagged [?m, ?c])"
    by blast
  have second: "map (\<lambda>opp. (ao_totalCost opp, ao_profit opp, ao_profitPercent opp))
       (fst (scanBinaryArbitrage [] [?m, ?c] 0))
     = [(Fin (77 / 100), Fin (23 / 100), Fin (2300 / 77))]"
    unfolding new by (simp add: f nf c)
  from U have "\<forall>opp\<in>set (fst (scanBinaryArbitrage [] [?m, ?c] 0)). Fin 0 < ao_profit opp"
    by blast
  from first second show ?thesis
    by blast
qed

section \<open>Backtesting engine: the equity curve and the maximum drawdown\<close>

lemma backtest_loop_Suc:
  "0 < n \<Longrightarrow> backtest_loop config data now draws (Suc n)
     = backtest_day config data now draws (backtest_loop config data now draws n) n"
  by (simp add: backtest_loop_def)

lemma backtest_loop_start [simp]:
  "backtest_loop config data now draws 0 = backtest_start config"
  "backtest_loop config data now draws (Suc 0) = backtest_start config"
  by (simp_all add: backtest_loop_def)

lemma backtest_day_curve:
  "length (bl_equityCurve (backtest_day config data now draws st i))
     = Suc (length (bl_equityCurve st))"
  by (simp add: backtest_day_def Let_def)

lemma backtest_loop_curve_length:
  "length (bl_equityCurve (backtest_loop config data now draws n)) = n - 1"
proof (induction n)
  case 0
  then show ?case by (simp add: backtest_start_def)
next
  case (Suc n)
  show ?case
  proof (cases n)
    case 0
    then show ?thesis by (simp add: backtest_start_def)
  next
    case (Suc k)
    then show ?thesis
      using Suc.IH by (simp add: backtest_loop_Suc backtest_day_curve)
  qed
qed

lemma le_refl_jsnum: "x \<noteq> NaN \<Longrightarrow> x \<le> (x :: jsnum)"
  by (simp add: less_eq_jsnum_def)

lemma less_not_NaN: "(x :: jsnum) < y \<Longrightarrow> x \<noteq> NaN \<and> y \<noteq> NaN"
  by (cases x; cases y) simp_all

lemma less_imp_le_jsnum: "(x :: jsnum) < y \<Longrightarrow> x \<le> y"
  by (simp add: less_eq_jsnum_def)

lemma le_trans_jsnum: "(x :: jsnum) \<le> y \<Longrightarrow> y \<le> z \<Longrightarrow> x \<le> z"
  by (cases x; cases y; cases z) (auto simp: less_eq_jsnum_def)

lemma backtest_day_maxDrawdown:
  assumes "bl_maxDrawdown st \<noteq> NaN"
  shows "bl_maxDrawdown (backtest_day config data now draws st i) \<noteq> NaN"
    and "bl_maxDrawdown st \<le> bl_maxDrawdown (backtest_day config data now draws st i)"
  using assms
  by (auto simp: backtest_day_def Let_def le_refl_jsnum less_imp_le_jsnum dest: less_not_NaN)

lemma backtest_loop_maxDrawdown_mono:
  "bl_maxDrawdown (backtest_loop config data now draws n) \<noteq> NaN
   \<and> (k \<le> n \<longrightarrow> bl_maxDrawdown (backtest_loop config data now draws k)
                  \<le> bl_maxDrawdown (backtest_loop config data now draws n))"
proof (induction n)
  case 0
  then show ?case by (simp add: backtest_start_def le_refl_jsnum)
next
  case (Suc n)
  show ?case
  proof (cases n)
    case 0
    then show ?thesis
      by (cases k) (auto simp: backtest_start_def le_refl_jsnum le_Suc_eq)
  next
    case (Suc j)
    then have step: "backtest_loop config data now draws (Suc n)
       = backtest_day config data now draws (backtest_loop config data now draws n) n"
      by (simp add: backtest_loop_Suc)
    from Suc.IH have nn: "bl_maxDrawdown (backtest_loop config data now draws n) \<noteq> NaN"
      by simp
    note D = backtest_day_maxDrawdown [OF nn, of config data now draws n, folded step]
    show ?thesis
    proof (intro conjI impI)
      show "bl_maxDrawdown (backtest_loop config data now draws (Suc n)) \<noteq> NaN"
        by (rule D(1))
      assume "k \<le> Suc n"
      then consider "k \<le> n" | "k = Suc n" by linarith
      then show "bl_maxDrawdown (backtest_loop config data now draws k)
                  \<le> bl_maxDrawdown (backtest_loop config data now draws (Suc n))"
      proof cases
        case 1
        with Suc.IH D(2) show ?thesis
          by (blast intro: le_trans_jsnum)
      next
        case 2
        with D(1) show ?thesis
          by (simp add: le_refl_jsnum)
      qed
    qed
  qed
qed


lemma backtest_day_fields:
  "bl_equityCurve (backtest_day config data now draws st i)
     = bl_equityCurve st
       @ [((now - (int (length data) - int i) * 86400000) div 86400000,
           bl_equity (backtest_day config data now draws st i))]"
  "bl_peakEquity (backtest_day config data now draws st i)
     = (if bl_peakEquity st < bl_equity (backtest_day config data now draws st i)
        then bl_equity (backtest_day config data now draws st i) else bl_peakEquity st)"
  "bl_maxDrawdown (backtest_day config data now draws st i)
     = (if bl_maxDrawdown st
             < (bl_peakEquity (backtest_day config data now draws st i)
                - bl_equity (backtest_day config data now draws st i))
               / bl_peakEquity (backtest_day config data now draws st i)
        then (bl_peakEquity (backtest_day config data now draws st i)
                - bl_equity (backtest_day config data now draws st i))
               / bl_peakEquity (backtest_day config data now draws st i)
        else bl_maxDrawdown st)"
  by (simp_all add: backtest_day_def Let_def)

lemma backtest_day_finite:
  assumes "bl_peakEquity st = Fin P" and "0 < P" and "bl_maxDrawdown st = Fin M"
    and "bl_equity (backtest_day config data now draws st i) = Fin e"
  shows "bl_peakEquity (backtest_day config data now draws st i) = Fin (max P e)"
    and "bl_maxDrawdown (backtest_day config data now draws st i)
           = Fin (max M ((max P e - e) / max P e))"
proof -
  show p: "bl_peakEquity (backtest_day config data now draws st i) = Fin (max P e)"
    unfolding backtest_day_fields(2) assms(1,4) by (simp add: max_def)
  have "max P e \<noteq> 0"
    using assms(2) by (simp add: max_def)
  then show "bl_maxDrawdown (backtest_day config data now draws st i)
           = Fin (max M ((max P e - e) / max P e))"
    unfolding backtest_day_fields(3) p assms(3,4) by (simp add: max_def)
qed

lemma drawdowns_snoc:
  "drawdowns p (es @ [e])
     = drawdowns p es @ [(max (foldl max p es) e - e) / max (foldl max p es) e]"
  by (induction es arbitrary: p) simp_all

lemma foldl_max_ge: "(p :: real) \<le> foldl max p es"
proof (induction es arbitrary: p)
  case Nil
  then show ?case by simp
next
  case (Cons e es)
  have "p \<le> max p e" by simp
  also have "\<dots> \<le> foldl max (max p e) es" by (rule Cons)
  finally show ?case by simp
qed

lemma foldl_max_Max: "foldl max (a :: real) xs = Max (set (a # xs))"
proof (induction xs arbitrary: a)
  case Nil
  then show ?case by simp
next
  case (Cons x xs)
  have "foldl max a (x # xs) = Max (set (max a x # xs))"
    using Cons [of "max a x"] by simp
  also have "\<dots> = Max (set (a # x # xs))"
    by (cases "xs = []") (simp_all add: max.assoc)
  finally show ?case .
qed

lemma drawdowns_nonneg: "0 < p \<Longrightarrow> \<forall>d\<in>set (drawdowns p es). 0 \<le> d"
proof (induction es arbitrary: p)
  case Nil
  then show ?case by simp
next
  case (Cons e es)
  then have "0 < max p e" by (simp add: max_def)
  moreover have "0 \<le> max p e - e" by simp
  ultimately show ?case
    using Cons.IH [of "max p e"] by (simp add: divide_nonneg_pos)
qed

lemma foldl_max_drawdowns:
  assumes "0 < p" and "es \<noteq> []"
  shows "foldl max 0 (drawdowns p es) = Max (set (drawdowns p es))"
proof -
  have ne': "drawdowns p es \<noteq> []"
    using assms(2) by (cases es) simp_all
  then have ne: "set (drawdowns p es) \<noteq> {}"
    by simp
  define d where "d = hd (drawdowns p es)"
  have d: "d \<in> set (drawdowns p es)"
    using ne' by (simp add: d_def)
  with drawdowns_nonneg [OF assms(1)] have "0 \<le> d" by blast
  also have "d \<le> Max (set (drawdowns p es))"
    using d by simp
  finally have "max 0 (Max (set (drawdowns p es))) = Max (set (drawdowns p es))"
    by simp
  then show ?thesis
    using ne by (simp add: foldl_max_Max)
qed

lemma backtest_loop_finite:
  assumes "bc_initialCapital config = Fin c" and "0 < c"
  shows "(\<forall>p\<in>set (bl_equityCurve (backtest_loop config data now draws n)). is_fin (snd p)) \<longrightarrow>
         bl_peakEquity (backtest_loop config data now draws n)
           = Fin (foldl max c (curve_equities
                    (bl_equityCurve (backtest_loop config data now draws n))))
         \<and> bl_maxDrawdown (backtest_loop config data now draws n)
           = Fin (foldl max 0 (drawdowns c (curve_equities
                    (bl_equityCurve (backtest_loop config data now draws n)))))"
proof (induction n)
  case 0
  then show ?case
    by (simp add: backtest_start_def assms(1) curve_equities_def)
next
  case (Suc n)
  show ?case
  proof (cases n)
    case 0
    then show ?thesis
      by (simp add: backtest_start_def assms(1) curve_equities_def)
  next
    case (Suc j)
    let ?st = "backtest_loop config data now draws n"
    let ?st' = "backtest_day config data now draws ?st n"
    have step: "backtest_loop config data now draws (Suc n) = ?st'"
      using Suc by (simp add: backtest_loop_Suc)
    show ?thesis
      unfolding step
    proof (intro impI)
      assume fin: "\<forall>p\<in>set (bl_equityCurve ?st'). is_fin (snd p)"
      let ?es = "curve_equities (bl_equityCurve ?st)"
      from fin have fin0: "\<forall>p\<in>set (bl_equityCurve ?st). is_fin (snd p)"
        and "is_fin (bl_equity ?st')"
        unfolding backtest_day_fields(1) [of config data now draws ?st n] by simp_all
      then obtain e where e: "bl_equity ?st' = Fin e"
        by (auto simp: is_fin_iff)
      from Suc.IH fin0 have P: "bl_peakEquity ?st = Fin (foldl max c ?es)"
        and M: "bl_maxDrawdown ?st = Fin (foldl max 0 (drawdowns c ?es))"
        by simp_all
      have pos: "0 < foldl max c ?es"
        using assms(2) foldl_max_ge [of c ?es] by linarith
      have es': "curve_equities (bl_equityCurve ?st') = ?es @ [e]"
        unfolding backtest_day_fields(1) [of config data now draws ?st n]
        by (simp add: curve_equities_def e)
      note F = backtest_day_finite [OF P pos M e]
      show "bl_peakEquity ?st' = Fin (foldl max c (curve_equities (bl_equityCurve ?st')))
         \<and> bl_maxDrawdown ?st'
           = Fin (foldl max 0 (drawdowns c (curve_equities (bl_equityCurve ?st'))))"
        unfolding es' F drawdowns_snoc by simp
    qed
  qed
qed


lemma runBacktest_fields:
  "br_equityCurve (fst (runBacktest results config data now draws))
     = bl_equityCurve (backtest_loop config data now draws (length data))"
  "br_maxDrawdown (fst (runBacktest results config data now draws))
     = bl_maxDrawdown (backtest_loop config data now draws (length data)) * Fin 100"
  by (simp_all add: runBacktest_def Let_def)

lemma kelly_losing_day:
  "backtest_loop
     \<lparr>bc_strategy = StrategyKelly, bc_initialCapital = Fin 1000,
      bc_settings = \<lparr>bs_positionPercent = None, bs_spikeThreshold = None,
                     bs_minProfit = None, bs_kellyFraction = None\<rparr>\<rparr>
     [[\<lparr>mk_id = ''a'', mk_question = ''A?'', mk_outcomes = [''Yes'', ''No''],
        mk_outcomePrices = [Fin (1 / 4), Fin (3 / 4)], mk_volume = Fin 0\<rparr>],
      [\<lparr>mk_id = ''a'', mk_question = ''A?'', mk_outcomes = [''Yes'', ''No''],
        mk_outcomePrices = [Fin (1 / 4), Fin (3 / 4)], mk_volume = Fin 0\<rparr>]]
     0 (fixed_draws (1 / 2, 3 / 4)) 2
   = \<lparr>bl_trades =
        [\<lparr>bt_entryDate = 0, bt_exitDate = 0, bt_marketId = ''a'', bt_side = YES,
          bt_entryPrice = Fin (1 / 4), bt_exitPrice = Fin 0, bt_quantity = Fin 200,
          bt_profitLoss = Fin (- 50), bt_profitLossPercent = Fin (- 100)\<rparr>],
      bl_equity = Fin 950, bl_equityCurve = [(- 1, Fin 950)], bl_peakEquity = Fin 1000,
      bl_maxDrawdown = Fin (1 / 20)\<rparr>"
  by (simp add: backtest_loop_def backtest_day_def backtest_start_def simulateTrades_def
      simulateKellyTrades_def kellyTrade_def fixed_draws_def Let_def at_index_def
      or_default_def numeral_2_eq_2)


text \<open>
  C5, as stated, fails: the result reports the maximum drawdown as a percentage. A run of
  the Kelly strategy over two days with the capital 1000, in which the only trade of the
  simulated day loses its stake of 50, has the single equity point 950, whose drawdown
  \<open>(1000 - 950) / 1000\<close> is 0.05, and reports the maximum drawdown 5.
\<close>

theorem maxDrawdown_percent_counterexample:
  "br_equityCurve
     (fst (runBacktest []
       \<lparr>bc_strategy = StrategyKelly, bc_initialCapital = Fin 1000,
        bc_settings = \<lparr>bs_positionPercent = None, bs_spikeThreshold = None,
                       bs_minProfit = None, bs_kellyFraction = None\<rparr>\<rparr>
       [[\<lparr>mk_id = ''a'', mk_question = ''A?'', mk_outcomes = [''Yes'', ''No''],
          mk_outcomePrices = [Fin (1 / 4), Fin (3 / 4)], mk_volume = Fin 0\<rparr>],
        [\<lparr>mk_id = ''a'', mk_question = ''A?'', mk_outcomes = [''Yes'', ''No''],
          mk_outcomePrices = [Fin (1 / 4), Fin (3 / 4)], mk_volume = Fin 0\<rparr>]]
       0 (fixed_draws (1 / 2, 3 / 4)))) = [(- 1, Fin 950)]
   \<and> Max (set (drawdowns 1000 (curve_equities (br_equityCurve
       (fst (runBacktest []
       \<lparr>bc_strategy = StrategyKelly, bc_initialCapital = Fin 1000,
        bc_settings = \<lparr>bs_positionPercent = None, bs_spikeThreshold = None,
                       bs_minProfit = None, bs_kellyFraction = None\<rparr>\<rparr>
       [[\<lparr>mk_id = ''a'', mk_question = ''A?'', mk_outcomes = [''Yes'', ''No''],
          mk_outcomePrices = [Fin (1 / 4), Fin (3 / 4)], mk_volume = Fin 0\<rparr>],
        [\<lparr>mk_id = ''a'', mk_question = ''A?'', mk_outcomes = [''Yes'', ''No''],
          mk_outcomePrices = [Fin (1 / 4), Fin (3 / 4)], mk_volume = Fin 0\<rparr>]]
       0 (fixed_draws (1 / 2, 3 / 4)))))))) = 1 / 20
   \<and> br_maxDrawdown
       (fst (runBacktest []
       \<lparr>bc_strategy = StrategyKelly, bc_initialCapital = Fin 1000,
        bc_settings = \<lparr>bs_positionPercent = None, bs_spikeThreshold = None,
                       bs_minProfit = None, bs_kellyFraction = None\<rparr>\<rparr>
       [[\<lparr>mk_id = ''a'', mk_question = ''A?'', mk_outcomes = [''Yes'', ''No''],
          mk_outcomePrices = [Fin (1 / 4), Fin (3 / 4)], mk_volume = Fin 0\<rparr>],
        [\<lparr>mk_id = ''a'', mk_question = ''A?'', mk_outcomes = [''Yes'', ''No''],
          mk_outcomePrices = [Fin (1 / 4), Fin (3 / 4)], mk_volume = Fin 0\<rparr>]]
       0 (fixed_draws (1 / 2, 3 / 4)))) = Fin 5"
  unfolding runBacktest_fields length_Cons list.size kelly_losing_day [unfolded numeral_2_eq_2]
  by (simp add: curve_equities_def)

text \<open>
  C5, amended. For a history of \<open>D \<ge> 1\<close> days the equity curve has \<open>D - 1\<close> points. The
  maximum drawdown tracked by the loop is never NaN and never decreases from one day to a
  later one. The reported \<open>maxDrawdown\<close> is that maximum as a percentage: 0 when no day
  is simulated, and,
  for a positive initial capital and finite daily equities, 100 times the largest of the
  daily values \<open>(peak - equity) / peak\<close>, where the peak of a day is the largest equity up
  to that day, the initial capital included.
\<close>

theorem runBacktest_curve_and_drawdown:
  "(1 \<le> length data \<longrightarrow>
      length (br_equityCurve (fst (runBacktest results config data now draws))) + 1
        = length data)
   \<and> bl_maxDrawdown (backtest_loop config data now draws n) \<noteq> NaN
   \<and> (k \<le> n \<longrightarrow>
        bl_maxDrawdown (backtest_loop config data now draws k)
          \<le> bl_maxDrawdown (backtest_loop config data now draws n))
   \<and> (length data \<le> 1 \<longrightarrow>
        br_maxDrawdown (fst (runBacktest results config data now draws)) = Fin 0)
   \<and> (2 \<le> length data \<and> bc_initialCapital config = Fin c \<and> 0 < c
        \<and> (\<forall>p\<in>set (br_equityCurve (fst (runBacktest results config data now draws))).
              is_fin (snd p)) \<longrightarrow>
        br_maxDrawdown (fst (runBacktest results config data now draws))
          = Fin (Max (set (drawdowns c (curve_equities
                   (br_equityCurve (fst (runBacktest results config data now draws))))))
                 * 100))"
proof (intro conjI impI)
  assume "1 \<le> length data"
  then show "length (br_equityCurve (fst (runBacktest results config data now draws))) + 1
        = length data"
    by (simp add: runBacktest_fields backtest_loop_curve_length)
next
  show "bl_maxDrawdown (backtest_loop config data now draws n) \<noteq> NaN"
    using backtest_loop_maxDrawdown_mono [of config data now draws n k] by simp
next
  assume "k \<le> n"
  then show "bl_maxDrawdown (backtest_loop config data now draws k)
          \<le> bl_maxDrawdown (backtest_loop config data now draws n)"
    using backtest_loop_maxDrawdown_mono [of config data now draws n k] by simp
next
  assume "length data \<le> 1"
  then have "length data = 0 \<or> length data = Suc 0"
    by linarith
  then have "backtest_loop config data now draws (length data) = backtest_start config"
    by auto
  then show "br_maxDrawdown (fst (runBacktest results config data now draws)) = Fin 0"
    by (simp add: runBacktest_fields backtest_start_def)
next
  let ?st = "backtest_loop config data now draws (length data)"
  assume h: "2 \<le> length data \<and> bc_initialCapital config = Fin c \<and> 0 < c
        \<and> (\<forall>p\<in>set (br_equityCurve (fst (runBacktest results config data now draws))).
              is_fin (snd p))"
  then have c: "bc_initialCapital config = Fin c" "0 < c"
    and fin: "\<forall>p\<in>set (bl_equityCurve ?st). is_fin (snd p)"
    by (simp_all add: runBacktest_fields)
  from h have "length (bl_equityCurve ?st) \<noteq> 0"
    by (simp add: backtest_loop_curve_length)
  then have ne: "curve_equities (bl_equityCurve ?st) \<noteq> []"
    by (simp add: curve_equities_def)
  from backtest_loop_finite [OF c, of data now draws "length data"] fin
  have "bl_maxDrawdown ?st
          = Fin (foldl max 0 (drawdowns c (curve_equities (bl_equityCurve ?st))))"
    by simp
  also have "foldl max 0 (drawdowns c (curve_equities (bl_equityCurve ?st)))
               = Max (set (drawdowns c (curve_equities (bl_equityCurve ?st))))"
    using c(2) ne by (rule foldl_max_drawdowns)
  finally show "br_maxDrawdown (fst (runBacktest results config data now draws))
          = Fin (Max (set (drawdowns c (curve_equities
                   (br_equityCurve (fst (runBacktest results config data now draws))))))
                 * 100)"
    by (simp add: runBacktest_fields)
qed

theorem runBacktest_curve_and_drawdown_witness:
  "length (br_equityCurve
     (fst (runBacktest []
       \<lparr>bc_strategy = StrategyKelly, bc_initialCapital = Fin 1000,
        bc_settings = \<lparr>bs_positionPercent = None, bs_spikeThreshold = None,
                       bs_minProfit = None, bs_kellyFraction = None\<rparr>\<rparr>
       [[\<lparr>mk_id = ''a'', mk_question = ''A?'', mk_outcomes = [''Yes'', ''No''],
          mk_outcomePrices = [Fin (1 / 4), Fin (3 / 4)], mk_volume = Fin 0\<rparr>],
        [\<lparr>mk_id = ''a'', mk_question = ''A?'', mk_outcomes = [''Yes'', ''No''],
          mk_outcomePrices = [Fin (1 / 4), Fin (3 / 4)], mk_volume = Fin 0\<rparr>]]
       0 (fixed_draws (1 / 2, 3 / 4))))) + 1 = 2
   \<and> br_maxDrawdown
       (fst (runBacktest []
       \<lparr>bc_strategy = StrategyKelly, bc_initialCapital = Fin 1000,
        bc_settings = \<lparr>bs_positionPercent = None, bs_spikeThreshold = None,
                       bs_minProfit = None, bs_kellyFraction = None\<rparr>\<rparr>
       [[\<lparr>mk_id = ''a'', mk_question = ''A?'', mk_outcomes = [''Yes'', ''No''],
          mk_outcomePrices = [Fin (1 / 4), Fin (3 / 4)], mk_volume = Fin 0\<rparr>],
        [\<lparr>mk_id = ''a'', mk_question = ''A?'', mk_outcomes = [''Yes'', ''No''],
          mk_outcomePrices = [Fin (1 / 4), Fin (3 / 4)], mk_volume = Fin 0\<rparr>]]
       0 (fixed_draws (1 / 2, 3 / 4)))) = Fin 5"
proof -
  let ?K = "\<lparr>bc_strategy = StrategyKelly, bc_initialCapital = Fin 1000,
        bc_settings = \<lparr>bs_positionPercent = None, bs_spikeThreshold = None,
                       bs_minProfit = None, bs_kellyFraction = None\<rparr>\<rparr>"
  let ?D = "[[\<lparr>mk_id = ''a'', mk_question = ''A?'', mk_outcomes = [''Yes'', ''No''],
          mk_outcomePrices = [Fin (1 / 4), Fin (3 / 4)], mk_volume = Fin 0\<rparr>],
        [\<lparr>mk_id = ''a'', mk_question = ''A?'', mk_outcomes = [''Yes'', ''No''],
          mk_outcomePrices = [Fin (1 / 4), Fin (3 / 4)], mk_volume = Fin 0\<rparr>]]"
  let ?R = "fst (runBacktest [] ?K ?D 0 (fixed_draws (1 / 2, 3 / 4)))"
  have curve: "br_equityCurve ?R = [(- 1, Fin 950)]"
    unfolding runBacktest_fields length_Cons list.size
      kelly_losing_day [unfolded numeral_2_eq_2]
    by simp
  have len: "1 \<le> length ?D" "2 \<le> length ?D"
    by simp_all
  have cap: "bc_initialCapital ?K = Fin 1000 \<and> (0::real) < 1000"
    by simp
  have fin: "\<forall>p\<in>set (br_equityCurve ?R). is_fin (snd p)"
    unfolding curve by simp
  note T = runBacktest_curve_and_drawdown
             [where data = ?D and results = "[]" and config = ?K and now = 0
                and draws = "fixed_draws (1 / 2, 3 / 4)" and k = 1 and n = 2 and c = 1000]
  from T len(1) have a: "length (br_equityCurve ?R) + 1 = length ?D"
    by blast
  from T len(2) cap fin
  have "br_maxDrawdown ?R
          = Fin (Max (set (drawdowns 1000 (curve_equities (br_equityCurve ?R)))) * 100)"
    by blast
  then have b: "br_maxDrawdown ?R = Fin 5"
    unfolding curve by (simp add: curve_equities_def)
  from a b show ?thesis
    by simp
qed

end
